theory Spec2Isabelle
  imports Complex_Main "HOL-Library.Multiset"
begin

section \<open>Constants and values\<close>

text \<open>
  The module constants of \<^verbatim>\<open>app.py\<close>.
\<close>

definition max_days :: int where
  "max_days = 7400"

definition min_days :: int where
  "min_days = 3"

text \<open>
  Python exceptions as values. Only \<open>AttributeError\<close> is ever caught by the source.
  \<open>OutOfBounds\<close> stands for the errors of pandas on a date or a duration outside its
  range (\<^verbatim>\<open>OutOfBoundsDatetime\<close>, \<^verbatim>\<open>OutOfBoundsTimedelta\<close>), \<open>OtherError\<close> for any
  exception class raised by a collaborator (a network failure of the corpus client, for
  instance).
\<close>

datatype exn =
  AttributeError | ValueError | TypeError | OutOfBounds | OverflowError | OtherError string

text \<open>
  A cell of a numeric column. pandas stores 64-bit floats; the model keeps the finite
  values as rationals and the three special values apart, and computes without rounding.
  The two agree where the float arithmetic is exact, as it is on integer counts whose sums
  stay below \<open>2 ^ 53\<close>; the theorems about computed values say so in their hypotheses. A
  signed zero is not distinguished.
\<close>

datatype cell = Num rat | NaN | PosInf | NegInf

text \<open>
  A \<^verbatim>\<open>pandas.Timestamp\<close> is a count of nanoseconds since 1970-01-01T00:00, held in
  64 bits, and so is a \<^verbatim>\<open>pandas.Timedelta\<close>; a \<^verbatim>\<open>datetime.date\<close> is modelled
  by its day number since 1970-01-01. \<open>Timestamp\<close> and \<open>Timedelta\<close> give the count;
  \<open>in_bounds\<close> says that a count fits (the least 64-bit value is the null of pandas), and
  the code that builds one raises where it does not.
\<close>

type_synonym timestamp = int

definition in_bounds :: "int \<Rightarrow> bool" where
  "in_bounds x \<longleftrightarrow> - (2 ^ 63) < x \<and> x < 2 ^ 63"

definition day_ns :: int where
  "day_ns = 86400000000000"

definition Timestamp :: "int \<Rightarrow> timestamp" where
  \<comment> \<open>\<^verbatim>\<open>pd.Timestamp(date)\<close>: midnight of the day\<close>
  "Timestamp d = d * day_ns"

definition Timedelta :: "int \<Rightarrow> int" where
  \<comment> \<open>\<^verbatim>\<open>pd.Timedelta(days=n)\<close>\<close>
  "Timedelta n = n * day_ns"

definition dayofweek :: "timestamp \<Rightarrow> int" where
  \<comment> \<open>Monday is 0, Sunday is 6; 1970-01-01 was a Thursday\<close>
  "dayofweek t = (t div day_ns + 3) mod 7"

definition Timestamp_20210701 :: timestamp where
  \<comment> \<open>\<^verbatim>\<open>pd.Timestamp("20210701")\<close>: day 18809 since 1970-01-01\<close>
  "Timestamp_20210701 = Timestamp 18809"

section \<open>Data frames\<close>

text \<open>
  A DataFrame, column by column: the row labels, whether the index is a
  \<^verbatim>\<open>DatetimeIndex\<close> (only such an index has the attribute \<^verbatim>\<open>dayofweek\<close>),
  and the named columns, each as long as the index (\<open>wf_frame\<close>).
\<close>

record 'a frame =
  index :: "int list"
  datetimes :: bool
  columns :: "(string \<times> 'a list) list"

definition DataFrame_empty :: "'a frame" where
  \<comment> \<open>\<^verbatim>\<open>pd.DataFrame()\<close>\<close>
  "DataFrame_empty = \<lparr>index = [], datetimes = False, columns = []\<rparr>"

definition wf_frame :: "'a frame \<Rightarrow> bool" where
  "wf_frame df = list_all (\<lambda>c. length (snd c) = length (index df)) (columns df)"

definition map_cols :: "('a list \<Rightarrow> 'b list) \<Rightarrow> (string \<times> 'a list) list \<Rightarrow> (string \<times> 'b list) list" where
  \<comment> \<open>the same operation on every column, names kept\<close>
  "map_cols f cs = map (\<lambda>(n, vs). (n, f vs)) cs"

definition loc_mask :: "bool list \<Rightarrow> 'a list \<Rightarrow> 'a list" where
  \<comment> \<open>selection of the positions where a boolean mask holds\<close>
  "loc_mask msk xs = map fst (filter snd (zip xs msk))"

definition frame_loc :: "bool list \<Rightarrow> 'a frame \<Rightarrow> 'a frame" where
  \<comment> \<open>\<^verbatim>\<open>df.loc[mask]\<close>\<close>
  "frame_loc msk df =
     df\<lparr>index := loc_mask msk (index df), columns := map_cols (loc_mask msk) (columns df)\<rparr>"

definition set_NA :: "bool list \<Rightarrow> cell list \<Rightarrow> cell list" where
  "set_NA msk vs = map (\<lambda>(v, m). if m then NaN else v) (zip vs msk)"

definition set_rows_NA :: "bool list \<Rightarrow> cell frame \<Rightarrow> cell frame" where
  \<comment> \<open>\<^verbatim>\<open>df.loc[mask] = pd.NA\<close>: every cell of the selected rows becomes null\<close>
  "set_rows_NA msk df = df\<lparr>columns := map_cols (set_NA msk) (columns df)\<rparr>"

section \<open>Rolling mean\<close>

definition valid :: "cell list \<Rightarrow> rat list" where
  \<comment> \<open>the finite values among some cells. They are the observations of a rolling window:
      nulls do not count, and the rolling aggregation of pandas reads an infinity as a null\<close>
  "valid vs = concat (map (\<lambda>v. case v of Num q \<Rightarrow> [q] | _ \<Rightarrow> []) vs)"

definition mean_valid :: "cell list \<Rightarrow> cell" where
  \<comment> \<open>\<^verbatim>\<open>min_periods=1\<close>: one observation is enough, none gives a null. The quotient
      is the exact one; the float quotient of the code is its rounding, and has the same
      integer part when the sum is an integer below \<open>2 ^ 53\<close> in magnitude\<close>
  "mean_valid vs =
     (let qs = valid vs
      in if 1 \<le> length qs then Num (sum_list qs / of_nat (length qs)) else NaN)"

definition window :: "nat \<Rightarrow> 'a list \<Rightarrow> nat \<Rightarrow> 'a list" where
  \<comment> \<open>the trailing window of \<open>w\<close> rows ending at row \<open>i\<close> (shorter at the start)\<close>
  "window w xs i = drop (Suc i - w) (take (Suc i) xs)"

definition rolling_mean :: "nat \<Rightarrow> cell list \<Rightarrow> cell list" where
  "rolling_mean w xs = map (\<lambda>i. mean_valid (window w xs i)) [0..<length xs]"

definition frame_rolling_mean :: "int \<Rightarrow> cell frame \<Rightarrow> exn + cell frame" where
  \<comment> \<open>\<^verbatim>\<open>df.rolling(window=smooth, min_periods=1).mean()\<close>; a window below
      \<open>min_periods\<close> is refused with a ValueError, and one that does not fit the 64-bit
      window bounds is an overflow\<close>
  "frame_rolling_mean smooth df =
     (if smooth < 1 then Inl ValueError
      else if 2 ^ 63 \<le> smooth then Inl OverflowError
      else Inr (df\<lparr>columns := map_cols (rolling_mean (nat smooth)) (columns df)\<rparr>))"

section \<open>Filling and truncating\<close>

definition fillna0 :: "cell \<Rightarrow> cell" where
  "fillna0 v = (case v of NaN \<Rightarrow> Num 0 | _ \<Rightarrow> v)"

definition frame_fillna0 :: "cell frame \<Rightarrow> cell frame" where
  \<comment> \<open>\<^verbatim>\<open>df.fillna(0)\<close>\<close>
  "frame_fillna0 df = df\<lparr>columns := map_cols (map fillna0) (columns df)\<rparr>"

definition trunc0 :: "rat \<Rightarrow> int" where
  \<comment> \<open>conversion of a float to int: the fraction is dropped, toward zero\<close>
  "trunc0 q = (if 0 \<le> q then \<lfloor>q\<rfloor> else \<lceil>q\<rceil>)"

definition to_int64 :: "int \<Rightarrow> int" where
  \<comment> \<open>the cast of a truncated float to a 64-bit integer: a value that does not fit comes
      out as the least 64-bit integer\<close>
  "to_int64 k = (if - (2 ^ 63) \<le> k \<and> k < 2 ^ 63 then k else - (2 ^ 63))"

definition astype_int :: "cell \<Rightarrow> exn + int" where
  \<comment> \<open>a null or an infinity cannot be cast: pandas raises a ValueError\<close>
  "astype_int v = (case v of Num q \<Rightarrow> Inr (to_int64 (trunc0 q)) | _ \<Rightarrow> Inl ValueError)"

fun astype_int_list :: "cell list \<Rightarrow> exn + int list" where
  "astype_int_list [] = Inr []"
| "astype_int_list (v # vs) =
     (case astype_int v of
        Inl e \<Rightarrow> Inl e
      | Inr k \<Rightarrow> (case astype_int_list vs of Inl e \<Rightarrow> Inl e | Inr ks \<Rightarrow> Inr (k # ks)))"

fun apply_astype_int :: "(string \<times> cell list) list \<Rightarrow> exn + (string \<times> int list) list" where
  "apply_astype_int [] = Inr []"
| "apply_astype_int ((n, vs) # cs) =
     (case astype_int_list vs of
        Inl e \<Rightarrow> Inl e
      | Inr ks \<Rightarrow> (case apply_astype_int cs of Inl e \<Rightarrow> Inl e | Inr ds \<Rightarrow> Inr ((n, ks) # ds)))"

definition frame_astype_int :: "cell frame \<Rightarrow> exn + int frame" where
  \<comment> \<open>\<^verbatim>\<open>df.apply(lambda x: x.astype(int))\<close>, column after column\<close>
  "frame_astype_int df =
     (case apply_astype_int (columns df) of
        Inl e \<Rightarrow> Inl e
      | Inr cs \<Rightarrow> Inr \<lparr>index = index df, datetimes = datetimes df, columns = cs\<rparr>)"

section \<open>Strings\<close>

text \<open>
  A Python string is a sequence of code points; a \<open>string\<close> here holds the code points
  below 256, one to a character. Text with other characters is outside the model.
\<close>

definition is_space :: "char \<Rightarrow> bool" where
  \<comment> \<open>the characters \<^verbatim>\<open>str.strip()\<close> removes, among the code points below 256\<close>
  "is_space c \<longleftrightarrow>
     c \<in> set [CHR '' '', CHR 0x09, CHR 0x0A, CHR 0x0B, CHR 0x0C, CHR 0x0D,
              CHR 0x1C, CHR 0x1D, CHR 0x1E, CHR 0x1F, CHR 0x85, CHR 0xA0]"

definition strip :: "string \<Rightarrow> string" where
  "strip s = rev (dropWhile is_space (rev (dropWhile is_space s)))"

fun str_split :: "char \<Rightarrow> string \<Rightarrow> string list" where
  \<comment> \<open>\<^verbatim>\<open>s.split(c)\<close>: the empty string gives one empty piece\<close>
  "str_split c [] = [[]]"
| "str_split c (x # xs) =
     (if x = c then [] # str_split c xs
      else (case str_split c xs of [] \<Rightarrow> [[x]] | w # ws \<Rightarrow> (x # w) # ws))"

definition date_part :: "string \<Rightarrow> string" where
  \<comment> \<open>\<^verbatim>\<open>mid_date.split('T')[0]\<close>\<close>
  "date_part s = (case str_split CHR ''T'' s of [] \<Rightarrow> [] | w # ws \<Rightarrow> w)"

section \<open>The corpus client and the fetch\<close>

text \<open>
  \<^verbatim>\<open>api.ngram_news(words, period=..., title=...)\<close> is outside the repository: it is a
  parameter, a function from the request to a reply, which is a frame or an exception. The
  period is the pair of day numbers whose \<^verbatim>\<open>%Y%m%d\<close> strings the source sends. The
  row labels of a returned frame are dates, kept as day numbers; \<^verbatim>\<open>pd.Timestamp\<close>
  maps each to the Timestamp of its midnight.
\<close>

datatype reply = Returns "cell frame" | Raises exn

type_synonym corpus = "string list \<Rightarrow> int \<times> int \<Rightarrow> string option \<Rightarrow> reply"

definition argsort :: "int list \<Rightarrow> nat list" where
  "argsort ls = sort_key (\<lambda>i. ls ! i) [0..<length ls]"

definition take_rows :: "nat list \<Rightarrow> 'a list \<Rightarrow> 'a list" where
  "take_rows perm xs = map (\<lambda>i. xs ! i) perm"

definition sort_index :: "'a frame \<Rightarrow> 'a frame" where
  \<comment> \<open>\<^verbatim>\<open>df.sort_index()\<close>: the rows in ascending order of their labels\<close>
  "sort_index df =
     (let perm = argsort (index df)
      in df\<lparr>index := take_rows perm (index df),
             columns := map_cols (take_rows perm) (columns df)\<rparr>)"

definition index_map_Timestamp :: "'a frame \<Rightarrow> 'a frame" where
  \<comment> \<open>\<^verbatim>\<open>df.index = df.index.map(pd.Timestamp)\<close>; the result is a DatetimeIndex when
      there is a label to infer it from\<close>
  "index_map_Timestamp df =
     df\<lparr>index := map Timestamp (index df), datetimes := (index df \<noteq> [])\<rparr>"

definition row_sum :: "cell list \<Rightarrow> cell" where
  \<comment> \<open>the sum of a row, nulls skipped\<close>
  "row_sum vs =
     (if PosInf \<in> set vs \<and> NegInf \<in> set vs then NaN
      else if PosInf \<in> set vs then PosInf
      else if NegInf \<in> set vs then NegInf
      else Num (sum_list (valid vs)))"

definition sum_axis1 :: "cell frame \<Rightarrow> cell list" where
  \<comment> \<open>\<^verbatim>\<open>df.sum(axis=1)\<close>\<close>
  "sum_axis1 df =
     map (\<lambda>i. row_sum (map (\<lambda>(n, vs). vs ! i) (columns df))) [0..<length (index df)]"

text \<open>
  What \<open>sumword\<close> returns: the Series \<^verbatim>\<open>tot\<close> of the totals by Timestamp, or the
  empty DataFrame of its handler. Its argument \<open>words\<close> is a string or \<^verbatim>\<open>None\<close>; on
  \<^verbatim>\<open>None\<close> the call of \<^verbatim>\<open>split\<close> in its first line, before the \<^verbatim>\<open>try\<close>, is an
  AttributeError.
\<close>

datatype reference = Series "(timestamp \<times> cell) list" | EmptyFrame

definition reference_wordlist :: "string \<Rightarrow> string list" where
  \<comment> \<open>the first three lines of \<open>sumword\<close>: an empty piece asks for the comma\<close>
  "reference_wordlist words =
     (let wordlist = map strip (str_split CHR '','' words)
      in if '''' \<in> set wordlist
         then '','' # filter (\<lambda>y. y \<noteq> '''') wordlist else wordlist)"

definition sumword ::
  "corpus \<Rightarrow> string option \<Rightarrow> int \<times> int \<Rightarrow> string option \<Rightarrow> exn + reference" where
  "sumword api words period title =
     (case words of
        None \<Rightarrow> Inl AttributeError
      | Some words \<Rightarrow>
          let wordlist = reference_wordlist words
          in case api wordlist period title of
               Raises AttributeError \<Rightarrow> Inr EmptyFrame
             | Raises e \<Rightarrow> Inl e
             | Returns df \<Rightarrow> Inr (Series (zip (map Timestamp (index df)) (sum_axis1 df))))"

fun fdiv :: "cell \<Rightarrow> cell \<Rightarrow> cell" where
  \<comment> \<open>float division\<close>
  "fdiv NaN d = NaN"
| "fdiv v NaN = NaN"
| "fdiv (Num a) (Num b) =
     (if b = 0 then (if a = 0 then NaN else if 0 < a then PosInf else NegInf)
      else Num (a / b))"
| "fdiv (Num a) d = Num 0"
| "fdiv PosInf (Num b) = (if 0 \<le> b then PosInf else NegInf)"
| "fdiv NegInf (Num b) = (if 0 \<le> b then NegInf else PosInf)"
| "fdiv v d = NaN"

definition div_series :: "timestamp list \<Rightarrow> cell list \<Rightarrow> (timestamp \<times> cell) list \<Rightarrow> cell list" where
  \<comment> \<open>\<^verbatim>\<open>res[x] / tot\<close>, put back on the rows of \<open>res\<close>: the two are aligned on their
      labels (unique, as the dates of a reply are), and a row without a total gets a null\<close>
  "div_series idx vs tot =
     map (\<lambda>(t, v). case map_of tot t of None \<Rightarrow> NaN | Some d \<Rightarrow> fdiv v d) (zip idx vs)"

definition divide_columns :: "(timestamp \<times> cell) list \<Rightarrow> cell frame \<Rightarrow> cell frame" where
  \<comment> \<open>\<^verbatim>\<open>for x in res: res[x] = res[x] / tot\<close>\<close>
  "divide_columns tot res =
     fold (\<lambda>x r. r\<lparr>columns :=
                    map (\<lambda>(n, vs). if n = x then (n, div_series (index r) vs tot) else (n, vs))
                      (columns r)\<rparr>)
       (map fst (columns res)) res"

definition ngram_fetch :: "corpus \<Rightarrow> string list \<Rightarrow> int \<times> int \<Rightarrow> string option \<Rightarrow> exn + cell frame" where
  \<comment> \<open>lines 61 and 62 of the source\<close>
  "ngram_fetch api word period title =
     (case api word period title of
        Raises e \<Rightarrow> Inl e
      | Returns raw \<Rightarrow> Inr (index_map_Timestamp (sort_index (frame_fillna0 raw))))"

text \<open>
  \<^verbatim>\<open>ngram(word, mid_date, sammenlign, title)\<close>. \<open>ngram_try\<close> is the body of the
  \<^verbatim>\<open>try\<close> block. The reference \<open>sammenlign\<close> is a string or \<^verbatim>\<open>None\<close>, and
  \<^verbatim>\<open>None\<close> differs from the empty string, so that it takes the division branch. When
  \<open>sumword\<close> has fallen back to the empty DataFrame, what the division of a column by it
  and the assignment of the quotient do is decided inside pandas (as a rule the assignment
  is refused with a ValueError): it is the parameter \<open>div_by_empty\<close>.
\<close>

definition ngram_try ::
  "corpus \<Rightarrow> (cell frame \<Rightarrow> exn + cell frame) \<Rightarrow> string list \<Rightarrow> int \<Rightarrow> string option
     \<Rightarrow> string option \<Rightarrow> exn + cell frame" where
  "ngram_try api div_by_empty word mid_date sammenlign title =
     (let period = (mid_date - max_days, mid_date + max_days)
      in case ngram_fetch api word period title of
           Inl e \<Rightarrow> Inl e
         | Inr res \<Rightarrow>
             if sammenlign \<noteq> Some '''' then
               (case sumword api sammenlign period title of
                  Inl e \<Rightarrow> Inl e
                | Inr EmptyFrame \<Rightarrow> if columns res = [] then Inr res else div_by_empty res
                | Inr (Series tot) \<Rightarrow> Inr (divide_columns tot res))
             else Inr res)"

definition ngram ::
  "corpus \<Rightarrow> (cell frame \<Rightarrow> exn + cell frame) \<Rightarrow> string list \<Rightarrow> int \<Rightarrow> string option
     \<Rightarrow> string option \<Rightarrow> exn + cell frame" where
  "ngram api div_by_empty word mid_date sammenlign title =
     (case ngram_try api div_by_empty word mid_date sammenlign title of
        Inl AttributeError \<Rightarrow> Inr DataFrame_empty
      | Inl e \<Rightarrow> Inl e
      | Inr res \<Rightarrow> Inr res)"

section \<open>adjust\<close>

text \<open>
  \<^verbatim>\<open>adjust(df, date, days, smooth)\<close>. The clock read by
  \<^verbatim>\<open>pd.Timestamp.today()\<close> is the first argument. \<open>adjust_try\<close> is the body of the
  \<^verbatim>\<open>try\<close> block. Its first four lines build Timestamps and Timedeltas and raise
  when one is out of bounds (\<open>window_in_bounds\<close> says that none is). On an index that
  is not a DatetimeIndex, the empty index of \<^verbatim>\<open>pd.DataFrame()\<close> included, the comparison
  with a Timestamp in the next line is a TypeError; the read of \<^verbatim>\<open>dayofweek\<close> after
  it would be an AttributeError.
\<close>

definition window_in_bounds :: "int \<Rightarrow> int \<Rightarrow> bool" where
  "window_in_bounds date days \<longleftrightarrow>
     in_bounds (Timestamp date) \<and> in_bounds (Timedelta (days - 1))
     \<and> in_bounds (Timedelta (days + min_days))
     \<and> in_bounds (Timestamp date - Timedelta (days + min_days))
     \<and> in_bounds (Timestamp date + Timedelta (days - 1))"

definition adjust_try :: "timestamp \<Rightarrow> cell frame \<Rightarrow> int \<Rightarrow> int \<Rightarrow> int \<Rightarrow> exn + cell frame" where
  "adjust_try today df date days smooth =
     (if \<not> window_in_bounds date days then Inl OutOfBounds
      else
        let res = df;
            ts = Timestamp date;
            td = Timedelta (days - 1);
            s = min Timestamp_20210701 (ts - Timedelta (days + min_days));
            e = min today (ts + td)
        in if \<not> datetimes df then Inl TypeError
           else
             let msk = map (\<lambda>t. s \<le> t \<and> t \<le> e) (index df);
                 res = frame_loc msk res
             in if \<not> datetimes res then Inl AttributeError
                else
                  let res = set_rows_NA (map (\<lambda>t. dayofweek t = 6) (index res)) res
                  in frame_rolling_mean smooth res)"

definition adjust :: "timestamp \<Rightarrow> cell frame \<Rightarrow> int \<Rightarrow> int \<Rightarrow> int \<Rightarrow> exn + int frame" where
  "adjust today df date days smooth =
     (case adjust_try today df date days smooth of
        Inl AttributeError \<Rightarrow> frame_astype_int (frame_fillna0 DataFrame_empty)
      | Inl e \<Rightarrow> Inl e
      | Inr res \<Rightarrow> frame_astype_int (frame_fillna0 res))"

text \<open>
  The date window of \<open>adjust\<close>, as the source computes it: the lower bound is the
  \<^emph>\<open>earlier\<close> of 2021-07-01 and \<open>date - (days + min_days)\<close>, the upper bound the earlier
  of the clock and \<open>date + (days - 1)\<close>.
\<close>

definition in_window :: "timestamp \<Rightarrow> int \<Rightarrow> int \<Rightarrow> timestamp \<Rightarrow> bool" where
  "in_window today date days t \<longleftrightarrow>
     min Timestamp_20210701 (Timestamp date - Timedelta (days + min_days)) \<le> t
     \<and> t \<le> min today (Timestamp date + Timedelta (days - 1))"

text \<open>
  What the last line of \<open>adjust\<close> makes of a cell that left the rolling mean: a null
  becomes zero, and a number loses its fraction and is cast to 64 bits.
\<close>

definition int_of_cell :: "cell \<Rightarrow> int" where
  "int_of_cell v = (case v of Num q \<Rightarrow> to_int64 (trunc0 q) | _ \<Rightarrow> 0)"

text \<open>
  A frame of numbers of magnitude below a bound, or nulls; and a frame of integer counts
  of magnitude up to a bound, or nulls.
\<close>

definition cells_below :: "rat \<Rightarrow> cell frame \<Rightarrow> bool" where
  "cells_below b df \<longleftrightarrow>
     list_all (\<lambda>c. list_all (\<lambda>v. case v of Num q \<Rightarrow> \<bar>q\<bar> < b | NaN \<Rightarrow> True | _ \<Rightarrow> False)
                 (snd c)) (columns df)"

definition counts_upto :: "int \<Rightarrow> cell frame \<Rightarrow> bool" where
  "counts_upto b df \<longleftrightarrow>
     list_all (\<lambda>c. list_all (\<lambda>v. case v of Num q \<Rightarrow> q = of_int \<lfloor>q\<rfloor> \<and> \<bar>q\<bar> \<le> of_int b
                                | NaN \<Rightarrow> True | _ \<Rightarrow> False)
                 (snd c)) (columns df)"

text \<open>
  What \<open>adjust\<close> with a smoothing window of 1 returns, written out: the rows of the input
  inside the date window of \<open>adjust\<close>, the cells of Sunday rows nulled, nulls replaced by
  zero, every value truncated; no value is combined with another.
\<close>

definition window1_frame :: "timestamp \<Rightarrow> cell frame \<Rightarrow> int \<Rightarrow> int \<Rightarrow> int frame" where
  "window1_frame today df date days =
     \<lparr>index = filter (\<lambda>t. in_window today date days t) (index df),
      datetimes = datetimes df,
      columns = map_cols
        (\<lambda>vs. let restricted = filter (\<lambda>(t, v). in_window today date days t) (zip (index df) vs);
                   nulled = map (\<lambda>(t, v). if dayofweek t = 6 then NaN else v) restricted;
                   filled = map (\<lambda>v. case v of Num q \<Rightarrow> q | _ \<Rightarrow> 0) nulled
               in map trunc0 filled)
        (columns df)\<rparr>"

text \<open>
  A column as the rolling mean of \<open>adjust\<close> reads it: the rows inside the date window,
  the cells of Sunday rows nulled.
\<close>

definition nulled_column :: "timestamp \<Rightarrow> cell frame \<Rightarrow> int \<Rightarrow> int \<Rightarrow> cell list \<Rightarrow> cell list" where
  "nulled_column today df date days vs =
     map (\<lambda>(t, v). if dayofweek t = 6 then NaN else v)
       (filter (\<lambda>(t, v). in_window today date days t) (zip (index df) vs))"

section \<open>adjust over a store of objects\<close>

text \<open>
  The same function with the identity of its DataFrame objects made explicit. A store is
  the list of the objects that exist, a reference is a position in it, a new object goes
  to the end. \<^verbatim>\<open>df.copy()\<close>, \<^verbatim>\<open>res.loc[mask]\<close>, \<^verbatim>\<open>rolling(...).mean()\<close>,
  \<^verbatim>\<open>fillna\<close> and \<^verbatim>\<open>apply\<close> each return a new object; the assignment
  \<^verbatim>\<open>res.loc[...] = pd.NA\<close> writes into the object \<open>res\<close> refers to. The frame of
  integers that is returned is stored with its cells as numbers.
\<close>

type_synonym ref = nat
type_synonym store = "cell frame list"

definition new_object :: "cell frame \<Rightarrow> store \<Rightarrow> ref \<times> store" where
  "new_object v h = (length h, h @ [v])"

definition frame_of_ints :: "int frame \<Rightarrow> cell frame" where
  "frame_of_ints df =
     \<lparr>index = index df, datetimes = datetimes df,
      columns = map_cols (map (\<lambda>k. Num (of_int k))) (columns df)\<rparr>"

definition adjust_try_store ::
  "timestamp \<Rightarrow> store \<Rightarrow> ref \<Rightarrow> ref \<Rightarrow> int \<Rightarrow> int \<Rightarrow> int \<Rightarrow> (exn + ref) \<times> store" where
  "adjust_try_store today h df res date days smooth =
     (if \<not> window_in_bounds date days then (Inl OutOfBounds, h)
      else
        let ts = Timestamp date;
            td = Timedelta (days - 1);
            s = min Timestamp_20210701 (ts - Timedelta (days + min_days));
            e = min today (ts + td)
        in if \<not> datetimes (h ! df) then (Inl TypeError, h)
           else
             let msk = map (\<lambda>t. s \<le> t \<and> t \<le> e) (index (h ! df));
                 (res, h) = new_object (frame_loc msk (h ! res)) h
             in if \<not> datetimes (h ! res) then (Inl AttributeError, h)
                else
                  let h = h[res := set_rows_NA (map (\<lambda>t. dayofweek t = 6) (index (h ! res)))
                                     (h ! res)]
                  in case frame_rolling_mean smooth (h ! res) of
                       Inl err \<Rightarrow> (Inl err, h)
                     | Inr r \<Rightarrow> (let (res, h) = new_object r h in (Inr res, h)))"

definition fillna_astype_store :: "store \<Rightarrow> ref \<Rightarrow> (exn + ref) \<times> store" where
  "fillna_astype_store h res =
     (let (filled, h) = new_object (frame_fillna0 (h ! res)) h
      in case frame_astype_int (h ! filled) of
           Inl err \<Rightarrow> (Inl err, h)
         | Inr out \<Rightarrow> (let (r, h) = new_object (frame_of_ints out) h in (Inr r, h)))"

definition adjust_store ::
  "timestamp \<Rightarrow> store \<Rightarrow> ref \<Rightarrow> int \<Rightarrow> int \<Rightarrow> int \<Rightarrow> (exn + ref) \<times> store" where
  "adjust_store today h df date days smooth =
     (let (res, h) = new_object (h ! df) h
      in case adjust_try_store today h df res date days smooth of
           (Inl AttributeError, h) \<Rightarrow>
             (let (res, h) = new_object DataFrame_empty h in fillna_astype_store h res)
         | (Inl err, h) \<Rightarrow> (Inl err, h)
         | (Inr res, h) \<Rightarrow> fillna_astype_store h res)"


section \<open>The callbacks\<close>

text \<open>
  \<^verbatim>\<open>update_data(words, avisnavn, mid_date, period_size)\<close>. Parameters for what the
  libraries do: \<open>list_set\<close> is the order in which \<^verbatim>\<open>list(set(...))\<close> enumerates the
  distinct words, \<open>strptime\<close> parses a \<^verbatim>\<open>%Y-%m-%d\<close> date into its day number or
  raises, \<open>to_json\<close> is \<^verbatim>\<open>df.to_json(date_format='iso')\<close>.
\<close>

definition update_data ::
  "corpus \<Rightarrow> (cell frame \<Rightarrow> exn + cell frame) \<Rightarrow> (string list \<Rightarrow> string list)
     \<Rightarrow> (string \<Rightarrow> exn + int) \<Rightarrow> (cell frame \<Rightarrow> 'j)
     \<Rightarrow> string \<Rightarrow> string option \<Rightarrow> string \<Rightarrow> int option \<Rightarrow> exn + 'j" where
  "update_data api div_by_empty list_set strptime to_json words avisnavn mid_date period_size =
     (case strptime (date_part mid_date) of
        Inl e \<Rightarrow> Inl e
      | Inr mid_date \<Rightarrow>
          let allword = take 30 (list_set (map strip (str_split CHR '','' words)));
              avisnavn = (if avisnavn = Some ''--ingen--'' then None else avisnavn);
              period_size = (case period_size of None \<Rightarrow> max_days | Some p \<Rightarrow> p)
          in case ngram api div_by_empty allword mid_date (Some '''') avisnavn of
               Inl e \<Rightarrow> Inl e
             | Inr df \<Rightarrow> Inr (to_json df))"

text \<open>
  The outputs of \<^verbatim>\<open>update_chart\<close>. A trace is \<^verbatim>\<open>go.Scatter\<close> with its \<open>x\<close>, \<open>y\<close>,
  \<open>mode\<close>, \<open>name\<close>, \<open>opacity\<close> and line width; a figure is its traces and the template
  of its layout (none for \<^verbatim>\<open>go.Figure()\<close>; the other layout settings are constants);
  the summary is the text "Ingen data" or the four values formatted into the summary line.
\<close>

datatype trace = Scatter "int list" "int list" "string option" string rat rat

datatype figure = Figure "trace list" "string option"

datatype summary = Ingen_data | Summary string string int int

text \<open>
  \<^verbatim>\<open>update_chart\<close>, one call for each render event. \<open>read_json\<close> is
  \<^verbatim>\<open>pd.read_json\<close>, \<open>to_excel\<close> the export encoder of the source, whose bytes
  \<^verbatim>\<open>dcc.send_bytes\<close> pairs with the file name; the download output is \<open>None\<close> when
  nothing is sent.
\<close>

definition update_chart ::
  "timestamp \<Rightarrow> ('j \<Rightarrow> cell frame) \<Rightarrow> (string \<Rightarrow> exn + int) \<Rightarrow> (int frame \<Rightarrow> 'x)
     \<Rightarrow> 'j option \<Rightarrow> string \<Rightarrow> int option \<Rightarrow> int option \<Rightarrow> string option \<Rightarrow> rat option
     \<Rightarrow> rat option \<Rightarrow> string option \<Rightarrow> int \<Rightarrow> string \<Rightarrow> string option \<Rightarrow> string
     \<Rightarrow> exn + figure \<times> summary \<times> ('x \<times> string) option" where
  "update_chart today read_json strptime to_excel
       data_json mid_date period_size smooth_slider theme alpha width plot_type n_clicks
       words avisnavn filnavn =
     (case data_json of
        None \<Rightarrow> Inr (Figure [] None, Ingen_data, None)
      | Some js \<Rightarrow>
          let df = read_json js
          in case strptime (date_part mid_date) of
               Inl e \<Rightarrow> Inl e
             | Inr mid_date \<Rightarrow>
                 let period_size = (case period_size of None \<Rightarrow> max_days | Some p \<Rightarrow> p);
                     smooth_slider = (case smooth_slider of None \<Rightarrow> 3 | Some w \<Rightarrow> w)
                 in case adjust today df mid_date period_size smooth_slider of
                      Inl e \<Rightarrow> Inl e
                    | Inr df_for_print \<Rightarrow>
                        let traces =
                              map (\<lambda>(col, ys).
                                     Scatter (index df_for_print) ys plot_type col
                                       (case alpha of None \<Rightarrow> 9 / 10 | Some a \<Rightarrow> a)
                                       (case width of None \<Rightarrow> 3 | Some w \<Rightarrow> w))
                                (columns df_for_print);
                            fig = Figure traces
                                    (Some (case theme of None \<Rightarrow> ''plotly'' | Some t \<Rightarrow> t));
                            start_date = mid_date - period_size;
                            end_date = mid_date + period_size;
                            summary = Summary words
                                        (case avisnavn of None \<Rightarrow> ''Alle''
                                         | Some a \<Rightarrow> if a = '''' then ''Alle'' else a)
                                        start_date end_date
                        in if n_clicks > 0
                           then Inr (fig, summary, Some (to_excel df_for_print, filnavn))
                           else Inr (fig, summary, None))"

text \<open>
  The content of a frame, whatever the order of its rows: the multiset of its cells, each
  with its row label and its column name.
\<close>

definition cells :: "'a frame \<Rightarrow> (int \<times> string \<times> 'a) multiset" where
  "cells df =
     mset (concat (map (\<lambda>(n, vs). map (\<lambda>(t, v). (t, n, v)) (zip (index df) vs)) (columns df)))"

section \<open>Basic facts about frames and \<open>adjust\<close>\<close>

lemma loc_mask_Nil [simp]: "loc_mask [] xs = []" "loc_mask m [] = []"
  by (simp_all add: loc_mask_def)

lemma loc_mask_map: "loc_mask (map P xs) xs = filter P xs"
  unfolding loc_mask_def by (induction xs) auto

lemma map_cols_names [simp]: "map fst (map_cols f cs) = map fst cs"
  by (induction cs) (auto simp: map_cols_def)

lemma map_cols_length [simp]: "length (map_cols f cs) = length cs"
  by (simp add: map_cols_def)

lemma map_cols_comp: "map_cols f (map_cols g cs) = map_cols (\<lambda>vs. f (g vs)) cs"
  by (induction cs) (auto simp: map_cols_def)

lemma map_cols_cong:
  "(\<And>n vs. (n, vs) \<in> set cs \<Longrightarrow> f vs = g vs) \<Longrightarrow> map_cols f cs = map_cols g cs"
  by (induction cs) (auto simp: map_cols_def)

lemma apply_astype_int_map_cols:
  "(\<And>n vs. (n, vs) \<in> set cs \<Longrightarrow> astype_int_list (f vs) = Inr (g vs)) \<Longrightarrow>
   apply_astype_int (map_cols f cs) = Inr (map_cols g cs)"
proof (induction cs)
  case Nil
  then show ?case by (simp add: map_cols_def)
next
  case (Cons c cs)
  obtain n vs where c: "c = (n, vs)" by (cases c)
  have 1: "astype_int_list (f vs) = Inr (g vs)" using Cons.prems [of n vs] c by simp
  have 2: "apply_astype_int (map_cols f cs) = Inr (map_cols g cs)"
  proof (rule Cons.IH)
    fix m ws assume "(m, ws) \<in> set cs"
    then show "astype_int_list (f ws) = Inr (g ws)" using Cons.prems [of m ws] by simp
  qed
  show ?case using 1 2 c by (simp add: map_cols_def)
qed

lemma frame_astype_int_index: "frame_astype_int df = Inr out \<Longrightarrow> index out = index df"
  by (auto simp: frame_astype_int_def split: sum.splits)

lemma frame_fillna0_index [simp]: "index (frame_fillna0 df) = index df"
  by (simp add: frame_fillna0_def)

lemma frame_rolling_mean_index: "frame_rolling_mean w df = Inr r \<Longrightarrow> index r = index df"
  by (auto simp: frame_rolling_mean_def split: if_splits)

lemma set_rows_NA_index [simp]: "index (set_rows_NA m df) = index df"
  by (simp add: set_rows_NA_def)

lemma frame_loc_index [simp]: "index (frame_loc m df) = loc_mask m (index df)"
  by (simp add: frame_loc_def)

lemma adjust_try_index:
  "adjust_try today df date days smooth = Inr r \<Longrightarrow>
   index r = filter (\<lambda>t. in_window today date days t) (index df)"
  by (auto simp: adjust_try_def Let_def loc_mask_map in_window_def
      split: if_splits dest!: frame_rolling_mean_index)

lemma adjust_index:
  "adjust today df date days smooth = Inr out \<Longrightarrow>
   index out = [] \<or> index out = filter (\<lambda>t. in_window today date days t) (index df)"
  unfolding adjust_def
  by (auto split: sum.splits exn.splits dest!: frame_astype_int_index adjust_try_index
       simp: DataFrame_empty_def)

lemma mean_valid_cases: "mean_valid vs = NaN \<or> (\<exists>q. mean_valid vs = Num q)"
  by (simp add: mean_valid_def Let_def)

lemma astype_fillna_mean: "astype_int (fillna0 (mean_valid vs)) = Inr (int_of_cell (mean_valid vs))"
  using mean_valid_cases [of vs]
  by (auto simp: astype_int_def fillna0_def int_of_cell_def trunc0_def to_int64_def)

lemma astype_int_list_map:
  "(\<And>x. x \<in> set xs \<Longrightarrow> astype_int (f x) = Inr (g x)) \<Longrightarrow> astype_int_list (map f xs) = Inr (map g xs)"
  by (induction xs) auto

lemma astype_fillna_rolling:
  "astype_int_list (map fillna0 (rolling_mean w xs)) = Inr (map int_of_cell (rolling_mean w xs))"
  unfolding rolling_mean_def map_map comp_def
  by (rule astype_int_list_map) (simp add: astype_fillna_mean)

lemma adjust_try_datetimes:
  assumes "datetimes df" "1 \<le> smooth" "window_in_bounds date days" "smooth < 2 ^ 63"
  shows "adjust_try today df date days smooth =
     Inr \<lparr>index = filter (\<lambda>t. in_window today date days t) (index df),
          datetimes = True,
          columns = map_cols
            (\<lambda>vs. rolling_mean (nat smooth)
                     (set_NA (map (\<lambda>t. dayofweek t = 6) (filter (\<lambda>t. in_window today date days t) (index df)))
                        (loc_mask (map (\<lambda>t. in_window today date days t) (index df)) vs)))
            (columns df)\<rparr>"
  using assms
  by (simp add: adjust_try_def Let_def frame_loc_def set_rows_NA_def frame_rolling_mean_def
        loc_mask_map map_cols_comp in_window_def)

lemma adjust_datetimes:
  assumes "datetimes df" "1 \<le> smooth" "window_in_bounds date days" "smooth < 2 ^ 63"
  shows "adjust today df date days smooth =
     Inr \<lparr>index = filter (\<lambda>t. in_window today date days t) (index df),
          datetimes = True,
          columns = map_cols
            (\<lambda>vs. map int_of_cell (rolling_mean (nat smooth)
                     (set_NA (map (\<lambda>t. dayofweek t = 6) (filter (\<lambda>t. in_window today date days t) (index df)))
                        (loc_mask (map (\<lambda>t. in_window today date days t) (index df)) vs))))
            (columns df)\<rparr>"
  unfolding adjust_def adjust_try_datetimes [OF assms]
  by (simp add: frame_fillna0_def frame_astype_int_def map_cols_comp
       apply_astype_int_map_cols [where g = "\<lambda>vs. map int_of_cell (rolling_mean (nat smooth)
                     (set_NA (map (\<lambda>t. dayofweek t = 6) (filter (\<lambda>t. in_window today date days t) (index df)))
                        (loc_mask (map (\<lambda>t. in_window today date days t) (index df)) vs)))"]
       astype_fillna_rolling)

lemma window_1: "i < length xs \<Longrightarrow> window (Suc 0) xs i = [xs ! i]"
  by (simp add: window_def take_Suc_conv_app_nth)

lemma mean_valid_single: "mean_valid [v] = (case v of Num q \<Rightarrow> Num q | _ \<Rightarrow> NaN)"
  by (cases v) (simp_all add: mean_valid_def valid_def)

lemma rolling_mean_1: "rolling_mean (Suc 0) xs = map (\<lambda>v. case v of Num q \<Rightarrow> Num q | _ \<Rightarrow> NaN) xs"
  unfolding rolling_mean_def list_eq_iff_nth_eq
  by (simp add: window_1 mean_valid_single)

lemma set_NA_loc_mask:
  assumes "length vs = length idx"
  shows "set_NA (map S (filter P idx)) (loc_mask (map P idx) vs)
       = map (\<lambda>(t, v). if S t then NaN else v) (filter (\<lambda>(t, v). P t) (zip idx vs))"
  using assms unfolding set_NA_def loc_mask_def
  by (induction idx vs rule: list_induct2') auto

lemma valid_append [simp]: "valid (xs @ ys) = valid xs @ valid ys"
  by (simp add: valid_def)

lemma valid_NaN [simp]: "valid [NaN] = []"
  by (simp add: valid_def)

lemma mean_valid_window_NaN:
  assumes "1 \<le> w" "i < length xs" "xs ! i = NaN"
  shows "mean_valid (window w xs i) = mean_valid (drop (Suc i - w) (take i xs))"
proof -
  have "window w xs i = drop (Suc i - w) (take i xs) @ [NaN]"
    using assms by (simp add: window_def take_Suc_conv_app_nth)
  then show ?thesis by (simp add: mean_valid_def)
qed

lemma filter_zip_fst:
  "length vs = length idx \<Longrightarrow> map fst (filter (\<lambda>(t, v). P t) (zip idx vs)) = filter P idx"
  by (induction idx vs rule: list_induct2') auto

lemma nulled_column_length:
  "length vs = length (index df) \<Longrightarrow>
   length (nulled_column today df date days vs) = length (filter (\<lambda>t. in_window today date days t) (index df))"
  using arg_cong [OF filter_zip_fst [of vs "index df" "\<lambda>t. in_window today date days t"], of length]
  by (simp add: nulled_column_def)

lemma nulled_column_sunday:
  assumes len: "length vs = length (index df)"
    and i: "i < length (filter (\<lambda>t. in_window today date days t) (index df))"
    and sun: "dayofweek (filter (\<lambda>t. in_window today date days t) (index df) ! i) = 6"
  shows "nulled_column today df date days vs ! i = NaN"
proof -
  let ?rows = "filter (\<lambda>(t, v). in_window today date days t) (zip (index df) vs)"
  have fst_rows: "map fst ?rows = filter (\<lambda>t. in_window today date days t) (index df)"
    by (rule filter_zip_fst [OF len])
  then have li: "i < length ?rows" using i by (metis length_map)
  have "fst (?rows ! i) = filter (\<lambda>t. in_window today date days t) (index df) ! i"
    using fst_rows li by (metis nth_map)
  then show ?thesis using sun li
    by (simp add: nulled_column_def case_prod_beta)
qed





lemma to_int64_trunc0: "\<bar>q\<bar> < 2 ^ 63 \<Longrightarrow> to_int64 (trunc0 q) = trunc0 q"
proof -
  assume b: "\<bar>q\<bar> < 2 ^ 63"
  have "- (2 ^ 63) \<le> trunc0 q \<and> trunc0 q < 2 ^ 63"
  proof (cases "0 \<le> q")
    case True
    then have "0 \<le> \<lfloor>q\<rfloor>" by simp
    moreover have "\<lfloor>q\<rfloor> < 2 ^ 63" using b True by (simp add: floor_less_iff)
    ultimately show ?thesis using True by (simp add: trunc0_def)
  next
    case False
    then have "\<lceil>q\<rceil> \<le> 0" by (simp add: ceiling_le_iff)
    moreover have "- (2 ^ 63) < \<lceil>q\<rceil>" using b False by (simp add: less_ceiling_iff)
    ultimately show ?thesis using False by (simp add: trunc0_def)
  qed
  then show ?thesis by (simp add: to_int64_def)
qed

lemma trunc0_zero: "trunc0 0 = 0"
  by (simp add: trunc0_def)

lemma valid_set: 
  "q \<in> set (valid vs) \<longleftrightarrow> Num q \<in> set vs"
  by (induction vs) (auto simp: valid_def split: cell.splits)

lemma sum_list_abs_bound:
  fixes qs :: "rat list"
  assumes "\<forall>q \<in> set qs. \<bar>q\<bar> \<le> b"
  shows "\<bar>sum_list qs\<bar> \<le> of_nat (length qs) * b"
  using assms
proof (induction qs)
  case Nil
  then show ?case by simp
next
  case (Cons q qs)
  have "\<bar>q + sum_list qs\<bar> \<le> \<bar>q\<bar> + \<bar>sum_list qs\<bar>" by (rule abs_triangle_ineq)
  also have "\<dots> \<le> b + of_nat (length qs) * b" using Cons by (intro add_mono) auto
  finally show ?case by (simp add: algebra_simps)
qed

lemma mean_valid_bound:
  assumes "\<forall>q. Num q \<in> set vs \<longrightarrow> \<bar>q\<bar> \<le> b" and "mean_valid vs = Num m"
  shows "\<bar>m\<bar> \<le> b"
proof -
  let ?qs = "valid vs"
  have ne: "1 \<le> length ?qs" and m: "m = sum_list ?qs / of_nat (length ?qs)"
    using assms(2) by (auto simp: mean_valid_def Let_def split: if_splits)
  have "\<bar>sum_list ?qs\<bar> \<le> of_nat (length ?qs) * b"
    by (rule sum_list_abs_bound) (use assms(1) in \<open>auto simp: valid_set\<close>)
  moreover have pos: "(0::rat) < of_nat (length ?qs)" using ne by (cases "valid vs") simp_all
  ultimately have "\<bar>sum_list ?qs\<bar> / of_nat (length ?qs) \<le> b"
    by (simp add: divide_le_eq mult.commute)
  then show ?thesis using pos by (simp add: m)
qed

lemma nulled_column_set:
  "v \<in> set (nulled_column today df date days vs) \<Longrightarrow> v = NaN \<or> v \<in> set vs"
  by (auto simp: nulled_column_def split: if_splits dest: set_zip_rightD)

lemma cells_below_column:
  "cells_below b df \<Longrightarrow> (n, vs) \<in> set (columns df) \<Longrightarrow> v \<in> set vs \<Longrightarrow>
   v = NaN \<or> (\<exists>q. v = Num q \<and> \<bar>q\<bar> < b)"
proof -
  assume "cells_below b df" "(n, vs) \<in> set (columns df)" "v \<in> set vs"
  then have "case v of Num q \<Rightarrow> \<bar>q\<bar> < b | NaN \<Rightarrow> True | _ \<Rightarrow> False"
    unfolding cells_below_def list_all_iff by force
  then show ?thesis by (cases v) auto
qed

lemma counts_upto_column:
  "counts_upto b df \<Longrightarrow> (n, vs) \<in> set (columns df) \<Longrightarrow> Num q \<in> set vs \<Longrightarrow>
   \<bar>q\<bar> \<le> of_int b"
proof -
  assume "counts_upto b df" "(n, vs) \<in> set (columns df)" "Num q \<in> set vs"
  then have "case Num q of Num q \<Rightarrow> q = of_int \<lfloor>q\<rfloor> \<and> \<bar>q\<bar> \<le> of_int b
               | NaN \<Rightarrow> True | _ \<Rightarrow> False"
    unfolding counts_upto_def list_all_iff by force
  then show ?thesis by simp
qed


lemmas adjust_eval = adjust_def adjust_try_def Timestamp_def Timedelta_def Timestamp_20210701_def day_ns_def min_days_def
    frame_loc_def loc_mask_def set_rows_NA_def set_NA_def map_cols_def dayofweek_def frame_rolling_mean_def rolling_mean_def window_def mean_valid_def valid_def
    frame_fillna0_def fillna0_def frame_astype_int_def astype_int_def trunc0_def DataFrame_empty_def
    window_in_bounds_def in_bounds_def to_int64_def


section \<open>Facts about the store model\<close>

lemma fillna_astype_store_prefix:
  "fillna_astype_store h res = (r, h') \<Longrightarrow> \<exists>t. h' = h @ t"
  by (auto simp: fillna_astype_store_def new_object_def split: sum.splits)

lemma fillna_astype_store_result:
  "res < length h \<Longrightarrow> fillna_astype_store h res = (r, h') \<Longrightarrow>
   (case r of Inl err \<Rightarrow> frame_astype_int (frame_fillna0 (h ! res)) = Inl err
    | Inr p \<Rightarrow> p < length h' \<and>
        (\<exists>out. frame_astype_int (frame_fillna0 (h ! res)) = Inr out \<and> h' ! p = frame_of_ints out))"
  by (auto simp: fillna_astype_store_def new_object_def nth_append split: sum.splits)

lemma adjust_try_store_prefix:
  assumes "n \<le> res" "res < length h" "adjust_try_store today h df res date days smooth = (r, h')"
  shows "take n h' = take n h"
  using assms
  by (auto simp: adjust_try_store_def new_object_def Let_def split: if_splits sum.splits)

lemma adjust_try_store_result:
  assumes "df < length h" "res < length h" "h ! res = h ! df"
    "adjust_try_store today h df res date days smooth = (r, h')"
  shows "length h \<le> length h' \<and> (case r of Inl err \<Rightarrow> adjust_try today (h ! df) date days smooth = Inl err
    | Inr p \<Rightarrow> p < length h' \<and> adjust_try today (h ! df) date days smooth = Inr (h' ! p))"
  using assms
  by (auto simp: adjust_try_store_def adjust_try_def new_object_def Let_def nth_append
        split: if_splits sum.splits)


lemma adjust_try_store_length:
  "adjust_try_store today h df res date days smooth = (r, h') \<Longrightarrow> length h \<le> length h'"
  by (auto simp: adjust_try_store_def new_object_def Let_def split: if_splits sum.splits)

lemma take_prefix_append: "take n h1 = h \<Longrightarrow> length h = n \<Longrightarrow> take n (h1 @ t) = h"
  by (metis append_eq_conv_conj append_take_drop_id append.assoc)

lemma adjust_store_result:
  assumes df: "df < length h"
    and run: "adjust_store today h df date days smooth = (r, h')"
  shows "case r of
           Inl err \<Rightarrow> adjust today (h ! df) date days smooth = Inl err
         | Inr p \<Rightarrow> p < length h' \<and>
             (\<exists>out. adjust today (h ! df) date days smooth = Inr out \<and> h' ! p = frame_of_ints out)"
proof -
  let ?h0 = "h @ [h ! df]"
  obtain r1 h1 where tr: "adjust_try_store today ?h0 df (length h) date days smooth = (r1, h1)"
    by (cases "adjust_try_store today ?h0 df (length h) date days smooth")
  have res: "length ?h0 \<le> length h1 \<and> (case r1 of
        Inl err \<Rightarrow> adjust_try today (?h0 ! df) date days smooth = Inl err
      | Inr p \<Rightarrow> p < length h1 \<and> adjust_try today (?h0 ! df) date days smooth = Inr (h1 ! p))"
    using df by (intro adjust_try_store_result [OF _ _ _ tr]) (simp_all add: nth_append)
  have h0df: "?h0 ! df = h ! df" using df by (simp add: nth_append)
  show ?thesis
  proof (cases r1)
    case (Inr p)
    then have fin: "fillna_astype_store h1 p = (r, h')"
      using run tr by (simp add: adjust_store_def new_object_def)
    have p: "p < length h1" and at: "adjust_try today (h ! df) date days smooth = Inr (h1 ! p)"
      using res Inr h0df by simp_all
    show ?thesis
      using fillna_astype_store_result [OF p fin] at
      by (auto simp: adjust_def split: sum.splits)
  next
    case (Inl err)
    then have at: "adjust_try today (h ! df) date days smooth = Inl err"
      using res h0df by simp
    show ?thesis
    proof (cases "err = AttributeError")
      case True
      then have fin: "fillna_astype_store (h1 @ [DataFrame_empty]) (length h1) = (r, h')"
        using run tr Inl by (simp add: adjust_store_def new_object_def)
      show ?thesis
        using fillna_astype_store_result [OF _ fin] at True
        by (auto simp: adjust_def split: sum.splits)
    next
      case False
      then have "r = Inl err"
        using run tr Inl by (cases err) (simp_all add: adjust_store_def new_object_def)
      then show ?thesis using at False by (cases err) (simp_all add: adjust_def)
    qed
  qed
qed



section \<open>Facts about the fetch\<close>

lemma mset_argsort: "mset (argsort ls) = mset [0..<length ls]"
  by (simp add: argsort_def)

lemma zip_take_rows:
  "zip (take_rows perm xs) (take_rows perm ys) = map (\<lambda>i. (xs ! i, ys ! i)) perm"
  by (induction perm) (simp_all add: take_rows_def)

lemma map_nth_zip:
  "length ys = length xs \<Longrightarrow> map (\<lambda>i. (xs ! i, ys ! i)) [0..<length xs] = zip xs ys"
  by (rule nth_equalityI) simp_all

lemma mset_zip_take_rows:
  assumes "length ys = length xs" "mset perm = mset [0..<length xs]"
  shows "mset (zip (take_rows perm xs) (take_rows perm ys)) = mset (zip xs ys)"
proof -
  have "mset (map (\<lambda>i. (xs ! i, ys ! i)) perm) = mset (map (\<lambda>i. (xs ! i, ys ! i)) [0..<length xs])"
    using assms(2) by (metis mset_map)
  then show ?thesis by (simp add: zip_take_rows map_nth_zip [OF assms(1)])
qed

lemma column_cells:
  assumes "length vs = length idx"
  shows "mset (map (\<lambda>(t, v). (t, n, v))
           (zip (map Timestamp (take_rows (argsort idx) idx)) (take_rows (argsort idx) (map fillna0 vs))))
       = image_mset (\<lambda>(l, m, v). (Timestamp l, m, fillna0 v))
           (mset (map (\<lambda>(t, v). (t, n, v)) (zip idx vs)))"
proof -
  let ?p = "argsort idx"
  have len: "length (map fillna0 vs) = length idx" using assms by simp
  have perm: "mset (zip (take_rows ?p idx) (take_rows ?p (map fillna0 vs)))
      = mset (zip idx (map fillna0 vs))"
    by (rule mset_zip_take_rows [OF len mset_argsort])
  have l: "map (\<lambda>(t, v). (t, n, v))
           (zip (map Timestamp (take_rows ?p idx)) (take_rows ?p (map fillna0 vs)))
        = map (\<lambda>(l, v). (Timestamp l, n, v))
           (zip (take_rows ?p idx) (take_rows ?p (map fillna0 vs)))"
    by (simp add: zip_map1 case_prod_beta)
  have r: "map (\<lambda>(l, m, v). (Timestamp l, m, fillna0 v)) (map (\<lambda>(t, v). (t, n, v)) (zip idx vs))
        = map (\<lambda>(l, v). (Timestamp l, n, v)) (zip idx (map fillna0 vs))"
    by (simp add: zip_map2 case_prod_beta)
  have "mset (map (\<lambda>(l, v). (Timestamp l, n, v))
           (zip (take_rows ?p idx) (take_rows ?p (map fillna0 vs))))
      = mset (map (\<lambda>(l, v). (Timestamp l, n, v)) (zip idx (map fillna0 vs)))"
    using perm by (metis mset_map)
  then show ?thesis
    unfolding l by (simp only: r [symmetric] mset_map)
qed

lemma cells_fetch_columns:
  fixes cs :: "(string \<times> cell list) list"
  assumes "list_all (\<lambda>c. length (snd c) = length idx) cs"
  shows "mset (concat (map (\<lambda>(n, vs). map (\<lambda>(t, v). (t, n, v))
               (zip (map Timestamp (take_rows (argsort idx) idx)) vs))
               (map_cols (take_rows (argsort idx)) (map_cols (map fillna0) cs))))
      = image_mset (\<lambda>(l, n, v). (Timestamp l, n, fillna0 v))
          (mset (concat (map (\<lambda>(n, vs). map (\<lambda>(t, v). (t, n, v)) (zip idx vs)) cs)))"
  using assms
proof (induction cs)
  case Nil
  then show ?case by (simp add: map_cols_def)
next
  case (Cons c cs)
  obtain n vs where c: "c = (n, vs)" by (cases c)
  have len: "length vs = length idx" using Cons.prems c by simp
  have rest: "list_all (\<lambda>c. length (snd c) = length idx) cs" using Cons.prems by simp
  show ?case
    using Cons.IH [OF rest] column_cells [OF len, of n]
    by (simp add: c map_cols_def)
qed

lemma cells_fetch:
  assumes "wf_frame raw"
  shows "cells (index_map_Timestamp (sort_index (frame_fillna0 raw)))
       = image_mset (\<lambda>(l, n, v). (Timestamp l, n, fillna0 v)) (cells raw)"
  using cells_fetch_columns [of "index raw" "columns raw"] assms
  by (simp add: cells_def index_map_Timestamp_def sort_index_def frame_fillna0_def Let_def
        wf_frame_def)


lemma fold_divide:
  "distinct xs \<Longrightarrow>
   fold (\<lambda>x r. r\<lparr>columns :=
                    map (\<lambda>(n, vs). if n = x then (n, div_series (index r) vs tot) else (n, vs))
                      (columns r)\<rparr>) xs r
   = r\<lparr>columns :=
         map (\<lambda>(n, vs). if n \<in> set xs then (n, div_series (index r) vs tot) else (n, vs))
           (columns r)\<rparr>"
proof (induction xs arbitrary: r)
  case Nil
  then show ?case by (simp add: case_prod_beta)
next
  case (Cons x xs)
  let ?f = "\<lambda>x r. r\<lparr>columns :=
                    map (\<lambda>(n, vs). if n = x then (n, div_series (index r) vs tot) else (n, vs))
                      (columns r)\<rparr>"
  have d: "distinct xs" and nx: "x \<notin> set xs" using Cons.prems by simp_all
  have "fold ?f (x # xs) r = fold ?f xs (?f x r)" by simp
  also have "\<dots> = (?f x r)\<lparr>columns :=
         map (\<lambda>(n, vs). if n \<in> set xs then (n, div_series (index (?f x r)) vs tot) else (n, vs))
           (columns (?f x r))\<rparr>"
    by (rule Cons.IH [OF d])
  also have "\<dots> = r\<lparr>columns :=
         map (\<lambda>(n, vs). if n \<in> set (x # xs) then (n, div_series (index r) vs tot) else (n, vs))
           (columns r)\<rparr>"
    using nx by (auto simp: case_prod_beta)
  finally show ?case .
qed

lemma divide_columns_distinct:
  assumes "distinct (map fst (columns res))"
  shows "divide_columns tot res
       = res\<lparr>columns := map_cols (\<lambda>vs. div_series (index res) vs tot) (columns res)\<rparr>"
proof -
  have "map (\<lambda>(n, vs). if n \<in> set (map fst (columns res))
                         then (n, div_series (index res) vs tot) else (n, vs)) (columns res)
      = map_cols (\<lambda>vs. div_series (index res) vs tot) (columns res)"
    unfolding map_cols_def by (rule map_cong) (auto simp: rev_image_eqI)
  then show ?thesis
    unfolding divide_columns_def fold_divide [OF assms] by simp
qed

lemma zip_div_series:
  "zip idx (div_series idx vs tot)
   = map (\<lambda>(t, v). (t, case map_of tot t of None \<Rightarrow> NaN | Some d \<Rightarrow> fdiv v d)) (zip idx vs)"
  unfolding div_series_def by (induction idx vs rule: list_induct2') auto

lemma fdiv_ratio:
  assumes "0 \<le> c" "c \<le> r"
  shows "(fdiv (Num c) (Num r) = NaN \<and> r = 0)
       \<or> (\<exists>q. fdiv (Num c) (Num r) = Num q \<and> 0 \<le> q \<and> q \<le> 1)"
proof (cases "r = 0")
  case True
  then show ?thesis using assms by simp
next
  case False
  then have "0 < r" using assms by simp
  then have "0 \<le> c / r" "c / r \<le> 1" using assms by (simp_all add: divide_le_eq)
  then show ?thesis using False by simp
qed






section \<open>C1: the dates of the output lie in the window\<close>

text \<open>
  Claim C1, as amended. Every date in the output of \<open>adjust\<close> lies in \<open>[lower, upper]\<close>,
  both ends included, where \<open>lower\<close> is the minimum (not the maximum) of 2021-07-01 and
  \<open>mid_date - (period_size + min_days)\<close> days, and \<open>upper\<close> is the minimum of the clock
  and \<open>mid_date + (period_size - 1)\<close> days.
\<close>

theorem adjust_dates_within_window:
  assumes "adjust today df date days smooth = Inr out"
  shows "\<forall>t \<in> set (index out).
           min Timestamp_20210701 (Timestamp date - Timedelta (days + min_days)) \<le> t
           \<and> t \<le> min today (Timestamp date + Timedelta (days - 1))"
  using adjust_index [OF assms] by (auto simp: in_window_def)

theorem adjust_dates_within_window_witness:
  "adjust (Timestamp 20761)
     \<lparr>index = [Timestamp 16436, Timestamp 20000], datetimes = True,
      columns = [(''frihet'', [Num 5, Num 7])]\<rparr> 18444 3000 1
   = Inr \<lparr>index = [Timestamp 16436, Timestamp 20000], datetimes = True,
          columns = [(''frihet'', [5, 7])]\<rparr>
   \<and> min Timestamp_20210701 (Timestamp 18444 - Timedelta (3000 + min_days)) \<le> Timestamp 16436
   \<and> Timestamp 16436 \<le> min (Timestamp 20761) (Timestamp 18444 + Timedelta (3000 - 1))
   \<and> min Timestamp_20210701 (Timestamp 18444 - Timedelta (3000 + min_days)) \<le> Timestamp 20000
   \<and> Timestamp 20000 \<le> min (Timestamp 20761) (Timestamp 18444 + Timedelta (3000 - 1))"
proof -
  have run: "adjust (Timestamp 20761)
     \<lparr>index = [Timestamp 16436, Timestamp 20000], datetimes = True,
      columns = [(''frihet'', [Num 5, Num 7])]\<rparr> 18444 3000 1
   = Inr \<lparr>index = [Timestamp 16436, Timestamp 20000], datetimes = True,
          columns = [(''frihet'', [5, 7])]\<rparr>"
    by (simp add: adjust_eval)
  from adjust_dates_within_window [OF run] show ?thesis using run by simp
qed

theorem adjust_lower_bound_max_counterexample:
  "adjust (Timestamp 20761)
     \<lparr>index = [Timestamp 16436], datetimes = True, columns = [(''frihet'', [Num 5])]\<rparr>
     18444 3000 1
   = Inr \<lparr>index = [Timestamp 16436], datetimes = True, columns = [(''frihet'', [5])]\<rparr>
   \<and> \<not> max Timestamp_20210701 (Timestamp 18444 - Timedelta (3000 + min_days)) \<le> Timestamp 16436"
  by (simp add: adjust_eval)


section \<open>C2: what the handlers catch\<close>




section \<open>C3: when the export encoder runs\<close>

text \<open>
  Claim C3, as amended. \<open>update_chart\<close> is given the click count of the download button and
  nothing about the event that triggered it. A render event sends a spreadsheet exactly
  when the click count is positive, data are stored, the date parses and \<open>adjust\<close> returns;
  what is sent is then the encoding of the adjusted series under the file name. Whether the
  count has increased since the previous render plays no part. (When \<open>adjust\<close> raises, as
  on the empty frame that a failed fetch leaves in the store, the callback raises and sends
  nothing.)
\<close>

theorem spreadsheet_sent_iff:
  "(\<exists>fig summ. update_chart today read_json strptime to_excel
             data_json mid_date period_size smooth_slider theme alpha width plot_type n_clicks
             words avisnavn filnavn = Inr (fig, summ, Some x))
   = (0 < n_clicks \<and>
      (\<exists>js m d. data_json = Some js \<and> strptime (date_part mid_date) = Inr m
         \<and> adjust today (read_json js) m
              (case period_size of None \<Rightarrow> max_days | Some p \<Rightarrow> p)
              (case smooth_slider of None \<Rightarrow> 3 | Some w \<Rightarrow> w) = Inr d
         \<and> x = (to_excel d, filnavn)))"
proof (cases data_json)
  case None
  then show ?thesis by (simp add: update_chart_def)
next
  case (Some js)
  show ?thesis
  proof (cases "strptime (date_part mid_date)")
    case (Inl e)
    with Some show ?thesis by (simp add: update_chart_def)
  next
    case m: (Inr m)
    show ?thesis
    proof (cases "adjust today (read_json js) m
              (case period_size of None \<Rightarrow> max_days | Some p \<Rightarrow> p)
              (case smooth_slider of None \<Rightarrow> 3 | Some w \<Rightarrow> w)")
      case (Inl e)
      with Some m show ?thesis by (simp add: update_chart_def Let_def)
    next
      case d: (Inr d)
      with Some m show ?thesis by (auto simp: update_chart_def Let_def)
    qed
  qed
qed

theorem spreadsheet_sent_iff_witness:
  "update_chart (Timestamp 20761) (\<lambda>j. j) (\<lambda>s. Inr 18444) (\<lambda>f. f)
     (Some \<lparr>index = [Timestamp 18813], datetimes = True, columns = [(''frihet'', [Num 4])]\<rparr>)
     ''2020-07-01'' (Some 3000) (Some 1) (Some ''plotly'') None None (Some ''lines'') 2
     ''frihet'' None ''a.xlsx''
   = Inr (Figure [Scatter [Timestamp 18813] [4] (Some ''lines'') ''frihet'' (9 / 10) 3]
            (Some ''plotly''),
          Summary ''frihet'' ''Alle'' 15444 21444,
          Some (\<lparr>index = [Timestamp 18813], datetimes = True, columns = [(''frihet'', [4])]\<rparr>,
                ''a.xlsx''))
   \<and> (0::int) < 2
   \<and> adjust (Timestamp 20761)
        \<lparr>index = [Timestamp 18813], datetimes = True, columns = [(''frihet'', [Num 4])]\<rparr>
        18444 3000 1
     = Inr \<lparr>index = [Timestamp 18813], datetimes = True, columns = [(''frihet'', [4])]\<rparr>"
proof -
  have adj: "adjust (Timestamp 20761)
        \<lparr>index = [Timestamp 18813], datetimes = True, columns = [(''frihet'', [Num 4])]\<rparr>
        18444 3000 1
     = Inr \<lparr>index = [Timestamp 18813], datetimes = True, columns = [(''frihet'', [4])]\<rparr>"
    by code_simp
  have run: "update_chart (Timestamp 20761) (\<lambda>j. j) (\<lambda>s. Inr 18444) (\<lambda>f. f)
     (Some \<lparr>index = [Timestamp 18813], datetimes = True, columns = [(''frihet'', [Num 4])]\<rparr>)
     ''2020-07-01'' (Some 3000) (Some 1) (Some ''plotly'') None None (Some ''lines'') 2
     ''frihet'' None ''a.xlsx''
   = Inr (Figure [Scatter [Timestamp 18813] [4] (Some ''lines'') ''frihet'' (9 / 10) 3]
            (Some ''plotly''),
          Summary ''frihet'' ''Alle'' 15444 21444,
          Some (\<lparr>index = [Timestamp 18813], datetimes = True, columns = [(''frihet'', [4])]\<rparr>,
                ''a.xlsx''))"
    by code_simp
  show ?thesis
    using spreadsheet_sent_iff
      [of "Timestamp 20761" "\<lambda>j. j" "\<lambda>s. Inr 18444" "\<lambda>f. f"
          "Some \<lparr>index = [Timestamp 18813], datetimes = True, columns = [(''frihet'', [Num 4])]\<rparr>"
          "''2020-07-01''" "Some 3000" "Some 1" "Some ''plotly''" None None "Some ''lines''" 2
          "''frihet''" None "''a.xlsx''"
          "(\<lparr>index = [Timestamp 18813], datetimes = True, columns = [(''frihet'', [4])]\<rparr>,
            ''a.xlsx'')"]
      run adj
    by simp
qed

theorem download_without_new_click_counterexample:
  "update_chart (Timestamp 20761) (\<lambda>j. j) (\<lambda>s. Inr 18444) (\<lambda>f. f)
     (Some \<lparr>index = [Timestamp 18813], datetimes = True, columns = [(''frihet'', [Num 4])]\<rparr>)
     ''2020-07-01'' (Some 3000) (Some 1) (Some ''plotly'') None None (Some ''lines'') 1
     ''frihet'' None ''a.xlsx''
   = Inr (Figure [Scatter [Timestamp 18813] [4] (Some ''lines'') ''frihet'' (9 / 10) 3]
            (Some ''plotly''),
          Summary ''frihet'' ''Alle'' 15444 21444,
          Some (\<lparr>index = [Timestamp 18813], datetimes = True, columns = [(''frihet'', [4])]\<rparr>,
                ''a.xlsx''))
   \<and> update_chart (Timestamp 20761) (\<lambda>j. j) (\<lambda>s. Inr 18444) (\<lambda>f. f)
     (Some \<lparr>index = [Timestamp 18813], datetimes = True, columns = [(''frihet'', [Num 4])]\<rparr>)
     ''2020-07-01'' (Some 3000) (Some 1) (Some ''plotly_dark'') None None (Some ''lines'') 1
     ''frihet'' None ''a.xlsx''
   = Inr (Figure [Scatter [Timestamp 18813] [4] (Some ''lines'') ''frihet'' (9 / 10) 3]
            (Some ''plotly_dark''),
          Summary ''frihet'' ''Alle'' 15444 21444,
          Some (\<lparr>index = [Timestamp 18813], datetimes = True, columns = [(''frihet'', [4])]\<rparr>,
                ''a.xlsx''))"
  by code_simp

section \<open>C4: the value carried by a Sunday\<close>

text \<open>
  Claim C4, as amended. For every series of integer counts (or nulls) and every smoothing
  window such that the window times the largest count stays below \<open>2 ^ 53\<close>, where float
  sums are exact, each Sunday date in the output of \<open>adjust\<close> carries the mean of the
  non-null values of the rows that precede it inside the trailing window (rows of the date
  window, earlier Sundays nulled as well), truncated toward zero to an integer, and zero
  when the window holds no such value (a window of 1, for instance). The count recorded
  for that Sunday does not enter the value.
\<close>

theorem adjust_sunday_value:
  assumes run: "adjust today df date days smooth = Inr out"
    and wf: "wf_frame df"
    and cu: "counts_upto b df"
    and sb: "smooth * b < 2 ^ 53"
    and j: "j < length (columns df)"
    and i: "i < length (index out)"
    and sun: "dayofweek (index out ! i) = 6"
  shows "snd (columns out ! j) ! i =
           (case mean_valid (drop (Suc i - nat smooth)
                   (take i (nulled_column today df date days (snd (columns df ! j))))) of
              Num q \<Rightarrow> trunc0 q
            | _ \<Rightarrow> 0)"
proof -
  have wb: "window_in_bounds date days"
  proof (rule ccontr)
    assume "\<not> window_in_bounds date days"
    then have "adjust today df date days smooth = Inl OutOfBounds"
      by (simp add: adjust_def adjust_try_def)
    then show False using run by simp
  qed
  have dt: "datetimes df"
  proof (rule ccontr)
    assume "\<not> datetimes df"
    then have "adjust today df date days smooth = Inl TypeError"
      using wb by (simp add: adjust_def adjust_try_def Let_def)
    then show False using run by simp
  qed
  have sm: "1 \<le> smooth"
  proof (rule ccontr)
    assume "\<not> 1 \<le> smooth"
    then have "adjust today df date days smooth = Inl ValueError"
      using dt wb by (simp add: adjust_def adjust_try_def Let_def frame_loc_def set_rows_NA_def
            frame_rolling_mean_def)
    then show False using run by simp
  qed
  have sw: "smooth < 2 ^ 63"
  proof (rule ccontr)
    assume "\<not> smooth < 2 ^ 63"
    then have "adjust today df date days smooth = Inl OverflowError"
      using dt wb sm by (simp add: adjust_def adjust_try_def Let_def frame_loc_def set_rows_NA_def
            frame_rolling_mean_def)
    then show False using run by simp
  qed
  let ?idx = "filter (\<lambda>t. in_window today date days t) (index df)"
  let ?vs = "snd (columns df ! j)"
  let ?xs = "nulled_column today df date days ?vs"
  let ?W = "drop (Suc i - nat smooth) (take i ?xs)"
  have len: "length ?vs = length (index df)"
    using wf j by (auto simp: wf_frame_def list_all_iff)
  note out = adjust_datetimes [OF dt sm wb sw, of today, unfolded run, simplified]
  have idx: "index out = ?idx" using out by simp
  have xs: "set_NA (map (\<lambda>t. dayofweek t = 6) ?idx)
              (loc_mask (map (\<lambda>t. in_window today date days t) (index df)) ?vs) = ?xs"
    by (simp add: set_NA_loc_mask [OF len] nulled_column_def)
  have col: "snd (columns out ! j) = map int_of_cell (rolling_mean (nat smooth) ?xs)"
    using out j xs by (simp add: map_cols_def case_prod_beta)
  have lx: "length ?xs = length ?idx" by (rule nulled_column_length [OF len])
  have ix: "i < length ?xs" using i idx lx by simp
  have nan: "?xs ! i = NaN"
    using nulled_column_sunday [OF len, of i today date days] i sun idx by simp
  have "snd (columns out ! j) ! i = int_of_cell (mean_valid (window (nat smooth) ?xs i))"
    using col ix by (simp add: rolling_mean_def)
  also have "mean_valid (window (nat smooth) ?xs i) = mean_valid ?W"
    using sm ix nan by (intro mean_valid_window_NaN) auto
  finally have cell: "snd (columns out ! j) ! i = int_of_cell (mean_valid ?W)" .
  have incol: "(fst (columns df ! j), ?vs) \<in> set (columns df)"
    using j by (metis nth_mem prod.collapse)
  have bound: "\<bar>q\<bar> \<le> of_int b" if "Num q \<in> set ?W" for q
  proof -
    have "Num q \<in> set ?xs" using that by (meson in_set_dropD in_set_takeD)
    then have "Num q \<in> set ?vs" using nulled_column_set by fastforce
    from counts_upto_column [OF cu incol this] show ?thesis .
  qed
  have "int_of_cell (mean_valid ?W) = (case mean_valid ?W of Num q \<Rightarrow> trunc0 q | _ \<Rightarrow> 0)"
  proof (cases "mean_valid ?W")
    case (Num m)
    have mb: "\<bar>m\<bar> \<le> of_int b"
      by (rule mean_valid_bound [OF _ Num]) (use bound in blast)
    have "(0::rat) \<le> of_int b" using mb abs_ge_zero [of m] by linarith
    then have b0: "0 \<le> b" by simp
    have "b \<le> smooth * b" using sm b0 by (simp add: mult_le_cancel_right1)
    then have "b < 2 ^ 63" using sb by simp
    then have "(of_int b :: rat) < 2 ^ 63" by (metis of_int_less_iff of_int_numeral of_int_power)
    then have "\<bar>m\<bar> < 2 ^ 63" using mb by linarith
    then show ?thesis using Num by (simp add: int_of_cell_def to_int64_trunc0)
  qed (simp_all add: int_of_cell_def)
  with cell show ?thesis by simp
qed

theorem adjust_sunday_value_witness:
  "adjust (Timestamp 20761)
      \<lparr>index = [Timestamp 18810, Timestamp 18811, Timestamp 18812], datetimes = True,
       columns = [(''frihet'', [Num 2, Num 1, Num 9])]\<rparr> 18444 3000 3
     = Inr \<lparr>index = [Timestamp 18810, Timestamp 18811, Timestamp 18812], datetimes = True,
            columns = [(''frihet'', [2, 1, 1])]\<rparr>
   \<and> wf_frame \<lparr>index = [Timestamp 18810, Timestamp 18811, Timestamp 18812], datetimes = True,
       columns = [(''frihet'', [Num 2, Num 1, Num 9])]\<rparr>
   \<and> counts_upto 9 \<lparr>index = [Timestamp 18810, Timestamp 18811, Timestamp 18812],
       datetimes = True, columns = [(''frihet'', [Num 2, Num 1, Num 9])]\<rparr>
   \<and> (3::int) * 9 < 2 ^ 53
   \<and> (2::nat) < length [Timestamp 18810, Timestamp 18811, Timestamp 18812]
   \<and> dayofweek ([Timestamp 18810, Timestamp 18811, Timestamp 18812] ! 2) = 6
   \<and> [2, 1, 1 :: int] ! 2 =
       (case mean_valid (drop (Suc 2 - nat 3)
               (take 2 (nulled_column (Timestamp 20761)
                  \<lparr>index = [Timestamp 18810, Timestamp 18811, Timestamp 18812], datetimes = True,
                   columns = [(''frihet'', [Num 2, Num 1, Num 9])]\<rparr> 18444 3000
                  [Num 2, Num 1, Num 9]))) of
          Num q \<Rightarrow> trunc0 q
        | _ \<Rightarrow> 0)"
proof -
  let ?df = "\<lparr>index = [Timestamp 18810, Timestamp 18811, Timestamp 18812], datetimes = True,
       columns = [(''frihet'', [Num 2, Num 1, Num 9])]\<rparr>"
  let ?out = "\<lparr>index = [Timestamp 18810, Timestamp 18811, Timestamp 18812], datetimes = True,
            columns = [(''frihet'', [2, 1, 1 :: int])]\<rparr>"
  have run: "adjust (Timestamp 20761) ?df 18444 3000 3 = Inr ?out"
    by code_simp
  have wf: "wf_frame ?df" by (simp add: wf_frame_def)
  have cu: "counts_upto 9 ?df" by code_simp
  have sb: "(3::int) * 9 < 2 ^ 53" by simp
  have j: "(0::nat) < length (columns ?df)" by simp
  have i: "(2::nat) < length (index ?out)" by simp
  have sun: "dayofweek (index ?out ! 2) = 6"
    by (simp add: dayofweek_def Timestamp_def day_ns_def)
  show ?thesis
    using adjust_sunday_value [OF run wf cu sb j i sun] run wf cu sun by simp
qed

theorem adjust_sunday_mean_counterexample:
  "adjust (Timestamp 20761)
      \<lparr>index = [Timestamp 18810, Timestamp 18811, Timestamp 18812], datetimes = True,
       columns = [(''frihet'', [Num 2, Num 1, Num 9])]\<rparr> 18444 3000 3
     = Inr \<lparr>index = [Timestamp 18810, Timestamp 18811, Timestamp 18812], datetimes = True,
            columns = [(''frihet'', [2, 1, 1])]\<rparr>
   \<and> dayofweek (Timestamp 18812) = 6
   \<and> mean_valid [Num 2, Num 1] = Num (3 / 2)
   \<and> Num (of_int 1) \<noteq> Num (3 / 2)"
proof -
  have run: "adjust (Timestamp 20761)
      \<lparr>index = [Timestamp 18810, Timestamp 18811, Timestamp 18812], datetimes = True,
       columns = [(''frihet'', [Num 2, Num 1, Num 9])]\<rparr> 18444 3000 3
     = Inr \<lparr>index = [Timestamp 18810, Timestamp 18811, Timestamp 18812], datetimes = True,
            columns = [(''frihet'', [2, 1, 1])]\<rparr>"
    by code_simp
  have mean: "mean_valid [Num 2, Num 1] = Num (3 / 2)"
    by (simp add: mean_valid_def valid_def)
  show ?thesis using run mean by (simp add: dayofweek_def Timestamp_def day_ns_def)
qed

section \<open>C5: an empty or an absent reference\<close>

text \<open>
  Claim C5, as amended. For every raw series the corpus client returns, \<open>ngram\<close> called
  with the empty string as reference skips the division and returns the series with the
  same columns and, for every date and word, the same count, where a missing count has
  become 0, the date a Timestamp, and the rows are sorted by date. Called with an absent
  reference (\<^verbatim>\<open>None\<close>) it does not return the counts: it returns the empty frame.
\<close>

theorem ngram_empty_or_absent_reference:
  assumes "api word (mid_date - max_days, mid_date + max_days) title = Returns raw"
    and "wf_frame raw"
  shows "ngram api div_by_empty word mid_date (Some '''') title
           = Inr (index_map_Timestamp (sort_index (frame_fillna0 raw)))
       \<and> map fst (columns (index_map_Timestamp (sort_index (frame_fillna0 raw))))
           = map fst (columns raw)
       \<and> cells (index_map_Timestamp (sort_index (frame_fillna0 raw)))
           = image_mset (\<lambda>(l, n, v). (Timestamp l, n, fillna0 v)) (cells raw)
       \<and> sorted (index (index_map_Timestamp (sort_index (frame_fillna0 raw))))
       \<and> ngram api div_by_empty word mid_date None title = Inr DataFrame_empty"
proof -
  have 1: "ngram api div_by_empty word mid_date (Some '''') title
           = Inr (index_map_Timestamp (sort_index (frame_fillna0 raw)))"
    using assms(1) by (simp add: ngram_def ngram_try_def ngram_fetch_def)
  have 2: "map fst (columns (index_map_Timestamp (sort_index (frame_fillna0 raw))))
           = map fst (columns raw)"
    by (simp add: index_map_Timestamp_def sort_index_def frame_fillna0_def Let_def)
  have "sorted (map (\<lambda>i. index raw ! i) (argsort (index raw)))"
    unfolding argsort_def by (rule sorted_sort_key)
  then have "sorted (map Timestamp (take_rows (argsort (index raw)) (index raw)))"
    by (simp add: take_rows_def sorted_map Timestamp_def day_ns_def sorted_wrt_iff_nth_less)
  then have 3: "sorted (index (index_map_Timestamp (sort_index (frame_fillna0 raw))))"
    by (simp add: index_map_Timestamp_def sort_index_def frame_fillna0_def Let_def)
  have 4: "ngram api div_by_empty word mid_date None title = Inr DataFrame_empty"
    using assms(1) by (simp add: ngram_def ngram_try_def ngram_fetch_def sumword_def)
  show ?thesis using 1 2 3 4 cells_fetch [OF assms(2)] by simp
qed

theorem ngram_empty_or_absent_reference_witness:
  "(\<lambda>w p t. Returns \<lparr>index = [18812, 18811], datetimes = False,
                          columns = [(''frihet'', [Num 3, NaN])]\<rparr>)
      [''frihet''] (18444 - max_days, 18444 + max_days) None
     = Returns \<lparr>index = [18812, 18811], datetimes = False,
                 columns = [(''frihet'', [Num 3, NaN])]\<rparr>
   \<and> wf_frame \<lparr>index = [18812, 18811], datetimes = False,
                 columns = [(''frihet'', [Num 3, NaN])]\<rparr>
   \<and> ngram (\<lambda>w p t. Returns \<lparr>index = [18812, 18811], datetimes = False,
                                 columns = [(''frihet'', [Num 3, NaN])]\<rparr>)
        (\<lambda>r. Inl ValueError) [''frihet''] 18444 (Some '''') None
     = Inr \<lparr>index = [Timestamp 18811, Timestamp 18812], datetimes = True,
            columns = [(''frihet'', [Num 0, Num 3])]\<rparr>"
proof -
  let ?raw = "\<lparr>index = [18812, 18811], datetimes = False,
               columns = [(''frihet'', [Num 3, NaN])]\<rparr> :: cell frame"
  let ?api = "\<lambda>(w :: string list) (p :: int \<times> int) (t :: string option). Returns ?raw"
  have a: "?api [''frihet''] (18444 - max_days, 18444 + max_days) None = Returns ?raw"
    by simp
  have w: "wf_frame ?raw" by (simp add: wf_frame_def)
  have e: "index_map_Timestamp (sort_index (frame_fillna0 ?raw))
         = \<lparr>index = [Timestamp 18811, Timestamp 18812], datetimes = True,
            columns = [(''frihet'', [Num 0, Num 3])]\<rparr>"
    by code_simp
  show ?thesis
    using ngram_empty_or_absent_reference
            [of ?api "[''frihet'']" 18444 None ?raw "\<lambda>r. Inl ValueError", OF a w]
      w e
    by simp
qed

theorem ngram_absent_reference_counterexample:
  "ngram (\<lambda>w p t. Returns \<lparr>index = [18811, 18812], datetimes = False,
                               columns = [(''frihet'', [Num 3, Num 5])]\<rparr>)
      (\<lambda>r. Inl ValueError) [''frihet''] 18444 None None
     = Inr \<lparr>index = [], datetimes = False, columns = []\<rparr>
   \<and> ngram (\<lambda>w p t. Returns \<lparr>index = [18811, 18812], datetimes = False,
                               columns = [(''frihet'', [Num 3, Num 5])]\<rparr>)
      (\<lambda>r. Inl ValueError) [''frihet''] 18444 (Some '''') None
     = Inr \<lparr>index = [Timestamp 18811, Timestamp 18812], datetimes = True,
            columns = [(''frihet'', [Num 3, Num 5])]\<rparr>"
  by code_simp

section \<open>C6: ratios against the reference totals\<close>

text \<open>
  Claim C6, as amended. For every fetched series with distinct column names and every
  non-empty reference word list whose totals \<open>sumword\<close> returns: if at every date each
  word's count is a number from 0 up to the reference total at that date, then every value
  produced by the division is a number in the closed interval \<open>[0, 1]\<close>, or a null (NaN) at
  a date whose reference total is 0.
\<close>

theorem ngram_ratio_in_unit_interval:
  assumes fetch: "ngram_fetch api word (mid_date - max_days, mid_date + max_days) title = Inr res"
    and ref: "sumword api (Some sammenlign) (mid_date - max_days, mid_date + max_days) title
                = Inr (Series tot)"
    and ne: "sammenlign \<noteq> ''''"
    and names: "distinct (map fst (columns res))"
    and le: "\<forall>(n, vs) \<in> set (columns res). \<forall>(t, v) \<in> set (zip (index res) vs).
               \<exists>c r. v = Num c \<and> map_of tot t = Some (Num r) \<and> 0 \<le> c \<and> c \<le> r"
  shows "\<exists>out. ngram api div_by_empty word mid_date (Some sammenlign) title = Inr out
           \<and> (\<forall>(n, vs) \<in> set (columns out). \<forall>(t, v) \<in> set (zip (index out) vs).
                 (v = NaN \<and> map_of tot t = Some (Num 0))
                 \<or> (\<exists>q. v = Num q \<and> 0 \<le> q \<and> q \<le> 1))"
proof -
  let ?out = "res\<lparr>columns := map_cols (\<lambda>vs. div_series (index res) vs tot) (columns res)\<rparr>"
  have run: "ngram api div_by_empty word mid_date (Some sammenlign) title = Inr ?out"
    using fetch ref ne by (simp add: ngram_def ngram_try_def divide_columns_distinct [OF names])
  have "(v = NaN \<and> map_of tot t = Some (Num 0)) \<or> (\<exists>q. v = Num q \<and> 0 \<le> q \<and> q \<le> 1)"
    if col: "(n, ws) \<in> set (columns ?out)" and cell: "(t, v) \<in> set (zip (index ?out) ws)"
    for n ws t v
  proof -
    obtain vs where vs: "(n, vs) \<in> set (columns res)" and ws: "ws = div_series (index res) vs tot"
      using col by (auto simp: map_cols_def)
    from cell obtain u where u: "(t, u) \<in> set (zip (index res) vs)"
      and v: "v = (case map_of tot t of None \<Rightarrow> NaN | Some d \<Rightarrow> fdiv u d)"
      unfolding ws by (auto simp: zip_div_series)
    from le vs u obtain c r where cr: "u = Num c" "map_of tot t = Some (Num r)" "0 \<le> c" "c \<le> r"
      by fastforce
    show ?thesis using fdiv_ratio [OF cr(3,4)] cr(1,2) v by auto
  qed
  then show ?thesis using run by blast
qed

theorem ngram_ratio_in_unit_interval_witness:
  "ngram_fetch
      (\<lambda>w p t. if w = [''frihet'']
         then Returns \<lparr>index = [18811, 18812], datetimes = False,
                        columns = [(''frihet'', [Num 1, Num 0])]\<rparr>
         else Returns \<lparr>index = [18811, 18812], datetimes = False,
                        columns = [(''og'', [Num 4, Num 0])]\<rparr>)
      [''frihet''] (18444 - max_days, 18444 + max_days) None
     = Inr \<lparr>index = [Timestamp 18811, Timestamp 18812], datetimes = True,
            columns = [(''frihet'', [Num 1, Num 0])]\<rparr>
   \<and> sumword
      (\<lambda>w p t. if w = [''frihet'']
         then Returns \<lparr>index = [18811, 18812], datetimes = False,
                        columns = [(''frihet'', [Num 1, Num 0])]\<rparr>
         else Returns \<lparr>index = [18811, 18812], datetimes = False,
                        columns = [(''og'', [Num 4, Num 0])]\<rparr>)
      (Some ''og'') (18444 - max_days, 18444 + max_days) None
     = Inr (Series [(Timestamp 18811, Num 4), (Timestamp 18812, Num 0)])
   \<and> ngram
      (\<lambda>w p t. if w = [''frihet'']
         then Returns \<lparr>index = [18811, 18812], datetimes = False,
                        columns = [(''frihet'', [Num 1, Num 0])]\<rparr>
         else Returns \<lparr>index = [18811, 18812], datetimes = False,
                        columns = [(''og'', [Num 4, Num 0])]\<rparr>)
      (\<lambda>r. Inl ValueError) [''frihet''] 18444 (Some ''og'') None
     = Inr \<lparr>index = [Timestamp 18811, Timestamp 18812], datetimes = True,
            columns = [(''frihet'', [Num (1 / 4), NaN])]\<rparr>"
proof -
  let ?api = "\<lambda>(w :: string list) (p :: int \<times> int) (t :: string option).
         if w = [''frihet'']
         then Returns \<lparr>index = [18811, 18812], datetimes = False,
                        columns = [(''frihet'', [Num 1, Num 0])]\<rparr>
         else Returns \<lparr>index = [18811, 18812], datetimes = False,
                        columns = [(''og'', [Num 4, Num 0])]\<rparr>"
  let ?res = "\<lparr>index = [Timestamp 18811, Timestamp 18812], datetimes = True,
            columns = [(''frihet'', [Num 1, Num 0])]\<rparr> :: cell frame"
  let ?tot = "[(Timestamp 18811, Num 4), (Timestamp 18812, Num 0)]"
  have f: "ngram_fetch ?api [''frihet''] (18444 - max_days, 18444 + max_days) None = Inr ?res"
    by code_simp
  have r: "sumword ?api (Some ''og'') (18444 - max_days, 18444 + max_days) None = Inr (Series ?tot)"
    by code_simp
  have ne: "''og'' \<noteq> ''''" by simp
  have names: "distinct (map fst (columns ?res))" by simp
  have le: "\<forall>(n, vs) \<in> set (columns ?res). \<forall>(t, v) \<in> set (zip (index ?res) vs).
               \<exists>c r. v = Num c \<and> map_of ?tot t = Some (Num r) \<and> 0 \<le> c \<and> c \<le> r"
    by (simp add: Timestamp_def day_ns_def)
  have run: "ngram ?api (\<lambda>r. Inl ValueError) [''frihet''] 18444 (Some ''og'') None
     = Inr \<lparr>index = [Timestamp 18811, Timestamp 18812], datetimes = True,
            columns = [(''frihet'', [Num (1 / 4), NaN])]\<rparr>"
    by code_simp
  show ?thesis
    using ngram_ratio_in_unit_interval [OF f r ne names le, of "\<lambda>r. Inl ValueError"] f r run
    by simp
qed

theorem ngram_ratio_zero_total_counterexample:
  "ngram_fetch
      (\<lambda>w p t. if w = [''frihet'']
         then Returns \<lparr>index = [18812], datetimes = False, columns = [(''frihet'', [Num 0])]\<rparr>
         else Returns \<lparr>index = [18812], datetimes = False, columns = [(''og'', [Num 0])]\<rparr>)
      [''frihet''] (18444 - max_days, 18444 + max_days) None
     = Inr \<lparr>index = [Timestamp 18812], datetimes = True, columns = [(''frihet'', [Num 0])]\<rparr>
   \<and> sumword
      (\<lambda>w p t. if w = [''frihet'']
         then Returns \<lparr>index = [18812], datetimes = False, columns = [(''frihet'', [Num 0])]\<rparr>
         else Returns \<lparr>index = [18812], datetimes = False, columns = [(''og'', [Num 0])]\<rparr>)
      (Some ''og'') (18444 - max_days, 18444 + max_days) None
     = Inr (Series [(Timestamp 18812, Num 0)])
   \<and> (0::rat) \<le> 0
   \<and> ngram
      (\<lambda>w p t. if w = [''frihet'']
         then Returns \<lparr>index = [18812], datetimes = False, columns = [(''frihet'', [Num 0])]\<rparr>
         else Returns \<lparr>index = [18812], datetimes = False, columns = [(''og'', [Num 0])]\<rparr>)
      (\<lambda>r. Inl ValueError) [''frihet''] 18444 (Some ''og'') None
     = Inr \<lparr>index = [Timestamp 18812], datetimes = True, columns = [(''frihet'', [NaN])]\<rparr>"
  by code_simp

section \<open>C7: two calls with the same arguments\<close>

text \<open>
  Claim C7, as amended. \<open>adjust\<close> reads the clock (\<^verbatim>\<open>pd.Timestamp.today()\<close>) for its upper
  bound, and nothing else besides its arguments: two calls with identical arguments on the
  same series yield identical output whenever no date of the series is later than the
  clock at either call.
\<close>

theorem adjust_clock_irrelevant_for_past_dates:
  assumes "\<forall>t \<in> set (index df). t \<le> today1 \<and> t \<le> today2"
  shows "adjust today1 df date days smooth = adjust today2 df date days smooth"
proof -
  have "map (\<lambda>t. min Timestamp_20210701 (Timestamp date - Timedelta (days + min_days)) \<le> t
               \<and> t \<le> min today1 (Timestamp date + Timedelta (days - 1))) (index df)
      = map (\<lambda>t. min Timestamp_20210701 (Timestamp date - Timedelta (days + min_days)) \<le> t
               \<and> t \<le> min today2 (Timestamp date + Timedelta (days - 1))) (index df)"
    by (rule map_cong) (use assms in auto)
  then have "adjust_try today1 df date days smooth = adjust_try today2 df date days smooth"
    unfolding adjust_try_def Let_def by (simp only:)
  then show ?thesis by (simp add: adjust_def)
qed


theorem adjust_clock_irrelevant_for_past_dates_witness:
  "Timestamp 18813 \<le> Timestamp 18814 \<and> Timestamp 18813 \<le> Timestamp 20761
   \<and> adjust (Timestamp 18814) \<lparr>index = [Timestamp 18813], datetimes = True, columns = [(''frihet'', [Num 4])]\<rparr> 18444 3000 7 = adjust (Timestamp 20761) \<lparr>index = [Timestamp 18813], datetimes = True, columns = [(''frihet'', [Num 4])]\<rparr> 18444 3000 7"
  using adjust_clock_irrelevant_for_past_dates
    [of "\<lparr>index = [Timestamp 18813], datetimes = True, columns = [(''frihet'', [Num 4])]\<rparr>" "Timestamp 18814" "Timestamp 20761" 18444 3000 7]
  by (simp add: Timestamp_def day_ns_def)

theorem adjust_clock_counterexample:
  "adjust (Timestamp 18812) \<lparr>index = [Timestamp 18813], datetimes = True, columns = [(''frihet'', [Num 4])]\<rparr> 18444 3000 1
     = Inr \<lparr>index = [], datetimes = True, columns = [(''frihet'', [])]\<rparr>
   \<and> adjust (Timestamp 18814) \<lparr>index = [Timestamp 18813], datetimes = True, columns = [(''frihet'', [Num 4])]\<rparr> 18444 3000 1
     = Inr \<lparr>index = [Timestamp 18813], datetimes = True, columns = [(''frihet'', [4])]\<rparr>
   \<and> adjust (Timestamp 18812) \<lparr>index = [Timestamp 18813], datetimes = True, columns = [(''frihet'', [Num 4])]\<rparr> 18444 3000 1 \<noteq> adjust (Timestamp 18814) \<lparr>index = [Timestamp 18813], datetimes = True, columns = [(''frihet'', [Num 4])]\<rparr> 18444 3000 1"
proof -
  have 1: "adjust (Timestamp 18812) \<lparr>index = [Timestamp 18813], datetimes = True, columns = [(''frihet'', [Num 4])]\<rparr> 18444 3000 1
     = Inr \<lparr>index = [], datetimes = True, columns = [(''frihet'', [])]\<rparr>"
    by code_simp
  have 2: "adjust (Timestamp 18814) \<lparr>index = [Timestamp 18813], datetimes = True, columns = [(''frihet'', [Num 4])]\<rparr> 18444 3000 1
     = Inr \<lparr>index = [Timestamp 18813], datetimes = True, columns = [(''frihet'', [4])]\<rparr>"
    by code_simp
  show ?thesis unfolding 1 2 by simp
qed

section \<open>C8: a smoothing window of 1\<close>

text \<open>
  Claim C8, as amended. For every series (a well-formed frame with a datetime index) whose
  values are nulls or numbers of magnitude below \<open>2 ^ 63\<close>, and every mid date and period
  within the bounds of pandas, \<open>adjust\<close> with a smoothing window of 1 returns the rows of
  the input inside the date window of \<open>adjust\<close> (the one of C1), with every Sunday row
  nulled, these and all other nulls replaced by zero, no averaging across dates, and every
  value truncated toward zero to an integer. A value of magnitude \<open>2 ^ 63\<close> or more does
  not come out truncated: the cast to 64 bits turns it into the least 64-bit integer.
\<close>

theorem adjust_window_1:
  assumes dt: "datetimes df" and wf: "wf_frame df"
    and wb: "window_in_bounds date days"
    and cb: "cells_below (2 ^ 63) df"
  shows "adjust today df date days 1 = Inr (window1_frame today df date days)"
proof -
  have "map_cols
            (\<lambda>vs. map int_of_cell (rolling_mean (nat 1)
                     (set_NA (map (\<lambda>t. dayofweek t = 6) (filter (\<lambda>t. in_window today date days t) (index df)))
                        (loc_mask (map (\<lambda>t. in_window today date days t) (index df)) vs))))
            (columns df) = columns (window1_frame today df date days)"
    unfolding window1_frame_def frame.simps
  proof (rule map_cols_cong)
    fix n vs assume col: "(n, vs) \<in> set (columns df)"
    then have len: "length vs = length (index df)"
      using wf by (auto simp: wf_frame_def list_all_iff)
    let ?rows = "filter (\<lambda>(t, v). in_window today date days t) (zip (index df) vs)"
    have cell: "int_of_cell (case (if dayofweek t = 6 then NaN else v) of Num q \<Rightarrow> Num q | _ \<Rightarrow> NaN)
              = trunc0 (case (if dayofweek t = 6 then NaN else v) of Num q \<Rightarrow> q | _ \<Rightarrow> 0)"
      if "(t, v) \<in> set ?rows" for t v
    proof -
      have "v \<in> set vs" using that by (auto dest: set_zip_rightD)
      from cells_below_column [OF cb col this]
      show ?thesis
        by (auto simp: int_of_cell_def to_int64_trunc0 trunc0_zero)
    qed
    have "map (\<lambda>(t, v). int_of_cell (case (if dayofweek t = 6 then NaN else v) of Num q \<Rightarrow> Num q | _ \<Rightarrow> NaN)) ?rows
        = map (\<lambda>(t, v). trunc0 (case (if dayofweek t = 6 then NaN else v) of Num q \<Rightarrow> q | _ \<Rightarrow> 0)) ?rows"
      by (rule map_cong) (use cell in auto)
    then show "map int_of_cell (rolling_mean (nat 1)
                     (set_NA (map (\<lambda>t. dayofweek t = 6) (filter (\<lambda>t. in_window today date days t) (index df)))
                        (loc_mask (map (\<lambda>t. in_window today date days t) (index df)) vs)))
       = (let restricted = filter (\<lambda>(t, v). in_window today date days t) (zip (index df) vs);
                   nulled = map (\<lambda>(t, v). if dayofweek t = 6 then NaN else v) restricted;
                   filled = map (\<lambda>v. case v of Num q \<Rightarrow> q | _ \<Rightarrow> 0) nulled
               in map trunc0 filled)"
      by (simp add: set_NA_loc_mask [OF len] rolling_mean_1 Let_def comp_def case_prod_beta)
  qed
  then show ?thesis
    using adjust_datetimes [OF dt _ wb, of 1 today]
    by (simp add: window1_frame_def dt)
qed

theorem adjust_window_1_witness:
  "datetimes \<lparr>index = [Timestamp 18811, Timestamp 18812, Timestamp 18813], datetimes = True,
              columns = [(''frihet'', [Num (7 / 2), Num 9, NaN])]\<rparr>
   \<and> wf_frame \<lparr>index = [Timestamp 18811, Timestamp 18812, Timestamp 18813], datetimes = True,
              columns = [(''frihet'', [Num (7 / 2), Num 9, NaN])]\<rparr>
   \<and> window_in_bounds 18444 3000
   \<and> cells_below (2 ^ 63)
        \<lparr>index = [Timestamp 18811, Timestamp 18812, Timestamp 18813], datetimes = True,
         columns = [(''frihet'', [Num (7 / 2), Num 9, NaN])]\<rparr>
   \<and> adjust (Timestamp 20761)
        \<lparr>index = [Timestamp 18811, Timestamp 18812, Timestamp 18813], datetimes = True,
         columns = [(''frihet'', [Num (7 / 2), Num 9, NaN])]\<rparr> 18444 3000 1
      = Inr \<lparr>index = [Timestamp 18811, Timestamp 18812, Timestamp 18813], datetimes = True,
             columns = [(''frihet'', [3, 0, 0])]\<rparr>"
proof -
  let ?df = "\<lparr>index = [Timestamp 18811, Timestamp 18812, Timestamp 18813], datetimes = True,
              columns = [(''frihet'', [Num (7 / 2), Num 9, NaN])]\<rparr>"
  have d: "datetimes ?df" by simp
  have w: "wf_frame ?df" by (simp add: wf_frame_def)
  have b: "window_in_bounds 18444 3000" by code_simp
  have c: "cells_below (2 ^ 63) ?df" by code_simp
  have s: "window1_frame (Timestamp 20761) ?df 18444 3000
      = \<lparr>index = [Timestamp 18811, Timestamp 18812, Timestamp 18813], datetimes = True,
         columns = [(''frihet'', [3, 0, 0])]\<rparr>"
    by code_simp
  show ?thesis using adjust_window_1 [OF d w b c, of "Timestamp 20761"] d w b c s by simp
qed

theorem adjust_window_1_cast_counterexample:
  "adjust (Timestamp 20761)
      \<lparr>index = [Timestamp 18813], datetimes = True,
       columns = [(''frihet'', [Num 10000000000000000000])]\<rparr> 18444 3000 1
     = Inr \<lparr>index = [Timestamp 18813], datetimes = True,
            columns = [(''frihet'', [- 9223372036854775808])]\<rparr>
   \<and> trunc0 10000000000000000000 = 10000000000000000000
   \<and> dayofweek (Timestamp 18813) = 0"
  by code_simp

section \<open>C9: the argument of adjust is not modified\<close>

text \<open>
  Claim C9. \<open>adjust\<close> never mutates its input: every object that exists before the call,
  the DataFrame passed in among them, holds the same dates, columns and values after the
  call. All writes go to objects the call itself has created, and what the call returns is
  the value of \<open>adjust\<close> on the frame passed in.
\<close>

theorem adjust_leaves_input_unchanged:
  assumes df: "df < length h"
    and run: "adjust_store today h df date days smooth = (r, h')"
  shows "take (length h) h' = h \<and> h' ! df = h ! df
       \<and> (case r of
            Inl err \<Rightarrow> adjust today (h ! df) date days smooth = Inl err
          | Inr p \<Rightarrow> p < length h' \<and>
              (\<exists>out. adjust today (h ! df) date days smooth = Inr out
                     \<and> h' ! p = frame_of_ints out))"
proof -
  let ?h0 = "h @ [h ! df]"
  obtain r1 h1 where tr: "adjust_try_store today ?h0 df (length h) date days smooth = (r1, h1)"
    by (cases "adjust_try_store today ?h0 df (length h) date days smooth")
  have pre1: "take (length h) h1 = h"
    using adjust_try_store_prefix [OF _ _ tr, of "length h"] by simp
  have len1: "length h < length h1"
    using adjust_try_store_length [OF tr] by simp
  have "\<exists>t. h' = h1 @ t"
  proof (cases r1)
    case (Inr p)
    then show ?thesis
      using run tr fillna_astype_store_prefix [of h1 p r h']
      by (simp add: adjust_store_def new_object_def)
  next
    case (Inl err)
    show ?thesis
    proof (cases "err = AttributeError")
      case True
      then have "fillna_astype_store (h1 @ [DataFrame_empty]) (length h1) = (r, h')"
        using run tr Inl by (simp add: adjust_store_def new_object_def)
      from fillna_astype_store_prefix [OF this] show ?thesis by auto
    next
      case False
      then have "h' = h1"
        using run tr Inl by (cases err) (simp_all add: adjust_store_def new_object_def)
      then show ?thesis by simp
    qed
  qed
  then obtain t where h': "h' = h1 @ t" ..
  have take: "take (length h) h' = h"
    unfolding h' by (rule take_prefix_append [OF pre1]) simp
  have "h' ! df = take (length h) h' ! df" using df by simp
  with take show ?thesis using adjust_store_result [OF df run] by simp
qed

theorem adjust_leaves_input_unchanged_witness:
  "(0::nat) < length [\<lparr>index = [Timestamp 18810, Timestamp 18811, Timestamp 18812], datetimes = True,
       columns = [(''frihet'', [Num 2, Num 1, Num 9])]\<rparr>]
   \<and> adjust_store (Timestamp 20761) [\<lparr>index = [Timestamp 18810, Timestamp 18811, Timestamp 18812], datetimes = True,
       columns = [(''frihet'', [Num 2, Num 1, Num 9])]\<rparr>] 0 18444 3000 3 = (Inr 5, [\<lparr>index = [Timestamp 18810, Timestamp 18811, Timestamp 18812], datetimes = True,
       columns = [(''frihet'', [Num 2, Num 1, Num 9])]\<rparr>,
      \<lparr>index = [Timestamp 18810, Timestamp 18811, Timestamp 18812], datetimes = True,
       columns = [(''frihet'', [Num 2, Num 1, Num 9])]\<rparr>,
      \<lparr>index = [Timestamp 18810, Timestamp 18811, Timestamp 18812], datetimes = True,
       columns = [(''frihet'', [Num 2, Num 1, NaN])]\<rparr>,
      \<lparr>index = [Timestamp 18810, Timestamp 18811, Timestamp 18812], datetimes = True,
       columns = [(''frihet'', [Num 2, Num (3 / 2), Num (3 / 2)])]\<rparr>,
      \<lparr>index = [Timestamp 18810, Timestamp 18811, Timestamp 18812], datetimes = True,
       columns = [(''frihet'', [Num 2, Num (3 / 2), Num (3 / 2)])]\<rparr>,
      \<lparr>index = [Timestamp 18810, Timestamp 18811, Timestamp 18812], datetimes = True,
       columns = [(''frihet'', [Num 2, Num 1, Num 1])]\<rparr>])
   \<and> take (length [\<lparr>index = [Timestamp 18810, Timestamp 18811, Timestamp 18812], datetimes = True,
       columns = [(''frihet'', [Num 2, Num 1, Num 9])]\<rparr>]) [\<lparr>index = [Timestamp 18810, Timestamp 18811, Timestamp 18812], datetimes = True,
       columns = [(''frihet'', [Num 2, Num 1, Num 9])]\<rparr>,
      \<lparr>index = [Timestamp 18810, Timestamp 18811, Timestamp 18812], datetimes = True,
       columns = [(''frihet'', [Num 2, Num 1, Num 9])]\<rparr>,
      \<lparr>index = [Timestamp 18810, Timestamp 18811, Timestamp 18812], datetimes = True,
       columns = [(''frihet'', [Num 2, Num 1, NaN])]\<rparr>,
      \<lparr>index = [Timestamp 18810, Timestamp 18811, Timestamp 18812], datetimes = True,
       columns = [(''frihet'', [Num 2, Num (3 / 2), Num (3 / 2)])]\<rparr>,
      \<lparr>index = [Timestamp 18810, Timestamp 18811, Timestamp 18812], datetimes = True,
       columns = [(''frihet'', [Num 2, Num (3 / 2), Num (3 / 2)])]\<rparr>,
      \<lparr>index = [Timestamp 18810, Timestamp 18811, Timestamp 18812], datetimes = True,
       columns = [(''frihet'', [Num 2, Num 1, Num 1])]\<rparr>] = [\<lparr>index = [Timestamp 18810, Timestamp 18811, Timestamp 18812], datetimes = True,
       columns = [(''frihet'', [Num 2, Num 1, Num 9])]\<rparr>]
   \<and> [\<lparr>index = [Timestamp 18810, Timestamp 18811, Timestamp 18812], datetimes = True,
       columns = [(''frihet'', [Num 2, Num 1, Num 9])]\<rparr>,
      \<lparr>index = [Timestamp 18810, Timestamp 18811, Timestamp 18812], datetimes = True,
       columns = [(''frihet'', [Num 2, Num 1, Num 9])]\<rparr>,
      \<lparr>index = [Timestamp 18810, Timestamp 18811, Timestamp 18812], datetimes = True,
       columns = [(''frihet'', [Num 2, Num 1, NaN])]\<rparr>,
      \<lparr>index = [Timestamp 18810, Timestamp 18811, Timestamp 18812], datetimes = True,
       columns = [(''frihet'', [Num 2, Num (3 / 2), Num (3 / 2)])]\<rparr>,
      \<lparr>index = [Timestamp 18810, Timestamp 18811, Timestamp 18812], datetimes = True,
       columns = [(''frihet'', [Num 2, Num (3 / 2), Num (3 / 2)])]\<rparr>,
      \<lparr>index = [Timestamp 18810, Timestamp 18811, Timestamp 18812], datetimes = True,
       columns = [(''frihet'', [Num 2, Num 1, Num 1])]\<rparr>] ! 0 = \<lparr>index = [Timestamp 18810, Timestamp 18811, Timestamp 18812], datetimes = True,
       columns = [(''frihet'', [Num 2, Num 1, Num 9])]\<rparr>"
proof -
  have run: "adjust_store (Timestamp 20761) [\<lparr>index = [Timestamp 18810, Timestamp 18811, Timestamp 18812], datetimes = True,
       columns = [(''frihet'', [Num 2, Num 1, Num 9])]\<rparr>] 0 18444 3000 3 = (Inr 5, [\<lparr>index = [Timestamp 18810, Timestamp 18811, Timestamp 18812], datetimes = True,
       columns = [(''frihet'', [Num 2, Num 1, Num 9])]\<rparr>,
      \<lparr>index = [Timestamp 18810, Timestamp 18811, Timestamp 18812], datetimes = True,
       columns = [(''frihet'', [Num 2, Num 1, Num 9])]\<rparr>,
      \<lparr>index = [Timestamp 18810, Timestamp 18811, Timestamp 18812], datetimes = True,
       columns = [(''frihet'', [Num 2, Num 1, NaN])]\<rparr>,
      \<lparr>index = [Timestamp 18810, Timestamp 18811, Timestamp 18812], datetimes = True,
       columns = [(''frihet'', [Num 2, Num (3 / 2), Num (3 / 2)])]\<rparr>,
      \<lparr>index = [Timestamp 18810, Timestamp 18811, Timestamp 18812], datetimes = True,
       columns = [(''frihet'', [Num 2, Num (3 / 2), Num (3 / 2)])]\<rparr>,
      \<lparr>index = [Timestamp 18810, Timestamp 18811, Timestamp 18812], datetimes = True,
       columns = [(''frihet'', [Num 2, Num 1, Num 1])]\<rparr>])"
    by code_simp
  show ?thesis
    using adjust_leaves_input_unchanged [OF _ run] run by simp
qed

section \<open>C10: what the orchestration stores\<close>

text \<open>
  Claim C10. \<open>update_data\<close>, the only caller of \<open>ngram\<close>, passes the empty string as the
  comparison argument: the division branch is never taken, \<open>sumword\<close> is not called, and
  the series it stores is the reply of the corpus client to the one request for the words,
  with its raw counts (nulls as 0, rows sorted, labels as Timestamps), or the empty frame
  when the client raises an AttributeError.
\<close>

theorem update_data_stores_raw_counts:
  "update_data api div_by_empty list_set strptime to_json words avisnavn mid_date period_size =
     (case strptime (date_part mid_date) of
        Inl e \<Rightarrow> Inl e
      | Inr mid \<Rightarrow>
          (case api (take 30 (list_set (map strip (str_split CHR '','' words))))
                  (mid - max_days, mid + max_days)
                  (if avisnavn = Some ''--ingen--'' then None else avisnavn) of
             Raises AttributeError \<Rightarrow> Inr (to_json DataFrame_empty)
           | Raises e \<Rightarrow> Inl e
           | Returns raw \<Rightarrow> Inr (to_json (index_map_Timestamp (sort_index (frame_fillna0 raw))))))"
  by (simp add: update_data_def ngram_def ngram_try_def ngram_fetch_def Let_def
       split: sum.splits reply.splits exn.splits)

theorem update_data_stores_raw_counts_witness:
  "update_data
     (\<lambda>w p t. Returns \<lparr>index = [18812, 18811], datetimes = False,
                         columns = [(''frihet'', [Num 3, NaN])]\<rparr>)
     (\<lambda>r. Inl ValueError) remdups (\<lambda>s. Inr 18444) (\<lambda>df. df)
     ''frihet'' None ''2020-07-01'' (Some 3000)
   = Inr \<lparr>index = [Timestamp 18811, Timestamp 18812], datetimes = True,
          columns = [(''frihet'', [Num 0, Num 3])]\<rparr>"
proof -
  have e: "index_map_Timestamp (sort_index (frame_fillna0
             \<lparr>index = [18812, 18811], datetimes = False,
              columns = [(''frihet'', [Num 3, NaN])]\<rparr>))
         = \<lparr>index = [Timestamp 18811, Timestamp 18812], datetimes = True,
            columns = [(''frihet'', [Num 0, Num 3])]\<rparr>"
    by code_simp
  show ?thesis
    using update_data_stores_raw_counts
      [of "\<lambda>w p t. Returns \<lparr>index = [18812, 18811], datetimes = False,
                         columns = [(''frihet'', [Num 3, NaN])]\<rparr>"
          "\<lambda>r. Inl ValueError" remdups "\<lambda>s. Inr 18444" "\<lambda>df. df"
          "''frihet''" None "''2020-07-01''" "Some 3000"] e
    by simp
qed

end
